theory Spec2Isabelle
  imports Main "HOL-Library.Word"
begin

section \<open>JavaScript strings\<close>

text \<open>
  A JavaScript string is a sequence of 16-bit code units. The string methods the two
  request handlers call (\<open>trim\<close>, \<open>startsWith\<close>, \<open>split\<close>, \<open>join\<close>, \<open>includes\<close>,
  \<open>substring(0, n)\<close>) are written out below on lists of code units. \<open>lit\<close> turns an
  ASCII literal of the source into its code units.
\<close>

type_synonym jschar = "16 word"
type_synonym jsstring = "jschar list"

definition lit :: "string \<Rightarrow> jsstring" where
  "lit s = map (\<lambda>c. of_char c) s"

definition TAB :: jschar where
  "TAB = 0x09"

definition NL :: jschar where
  "NL = 0x0A"

text \<open>
  The code units that \<open>String.prototype.trim\<close> strips and that \<open>\s\<close> matches in a
  regular expression: the WhiteSpace and LineTerminator productions of ECMAScript.
\<close>

definition isWhiteSpace :: "jschar \<Rightarrow> bool" where
  "isWhiteSpace c \<longleftrightarrow>
     c \<in> set [0x09, 0x0A, 0x0B, 0x0C, 0x0D, 0x20, 0xA0, 0x1680,
              0x2028, 0x2029, 0x202F, 0x205F, 0x3000, 0xFEFF]
     \<or> (0x2000 \<le> c \<and> c \<le> 0x200A)"

definition trim :: "jsstring \<Rightarrow> jsstring" where
  "trim s = rev (dropWhile isWhiteSpace (rev (dropWhile isWhiteSpace s)))"

definition startsWith :: "'a list \<Rightarrow> 'a list \<Rightarrow> bool" where
  "startsWith s p \<longleftrightarrow> take (length p) s = p"

text \<open>
  \<open>s.split(sep)\<close> for a separator of one code unit: the result always has at least
  one field, and \<open>''''.split(sep)\<close> is the one-element array holding the empty string.
\<close>

fun split :: "'a list \<Rightarrow> 'a \<Rightarrow> 'a list list" where
  "split [] sep = [[]]"
| "split (c # cs) sep =
     (if c = sep then [] # split cs sep
      else (case split cs sep of [] \<Rightarrow> [[c]] | p # ps \<Rightarrow> (c # p) # ps))"

fun join :: "'a list list \<Rightarrow> 'a list \<Rightarrow> 'a list" where
  "join [] sep = []"
| "join [x] sep = x"
| "join (x # y # ys) sep = x @ sep @ join (y # ys) sep"

fun includes_str :: "'a list \<Rightarrow> 'a list \<Rightarrow> bool" where
  "includes_str [] p \<longleftrightarrow> p = []"
| "includes_str (c # cs) p \<longleftrightarrow> startsWith (c # cs) p \<or> includes_str cs p"

definition substring0 :: "'a list \<Rightarrow> nat \<Rightarrow> 'a list" where
  "substring0 s n = take n s"

section \<open>The cookie file\<close>

text \<open>
  \<open>cookies.txt\<close> in the working directory is absent (\<open>fs.existsSync\<close> is false), or it
  exists and \<open>fs.readFileSync\<close> throws (the error message is kept), or it exists and is
  read as text.
\<close>

datatype cookies_file = Absent | Unreadable jsstring | Readable jsstring

definition existsSync :: "cookies_file \<Rightarrow> bool" where
  "existsSync file \<longleftrightarrow> file \<noteq> Absent"

fun readFileSync :: "cookies_file \<Rightarrow> jsstring + jsstring" where
  "readFileSync Absent = Inl (lit ''ENOENT: no such file or directory'')"
| "readFileSync (Unreadable message) = Inl message"
| "readFileSync (Readable cookiesContent) = Inr cookiesContent"

subsection \<open>src/api/download.js, lines 37 to 80\<close>

text \<open>
  The \<open>for (const line of cookieLines)\<close> loop, with the array \<open>cookies\<close> it pushes to
  as the accumulator.
\<close>

fun cookie_loop :: "jsstring list \<Rightarrow> jsstring list \<Rightarrow> jsstring list" where
  "cookie_loop [] cookies = cookies"
| "cookie_loop (line # cookieLines) cookies =
     (let trimmedLine = trim line in
      if trimmedLine = [] \<or> startsWith trimmedLine (lit ''#'')
           \<or> startsWith trimmedLine (lit ''//'')
      then cookie_loop cookieLines cookies
      else
        let parts = split trimmedLine TAB in
        if length parts \<ge> 7 then
          (let cookieName = parts ! 5; cookieValue = parts ! 6 in
           if cookieName \<noteq> [] \<and> cookieValue \<noteq> []
           then cookie_loop cookieLines (cookies @ [cookieName @ lit ''='' @ cookieValue])
           else cookie_loop cookieLines cookies)
        else cookie_loop cookieLines cookies)"

text \<open>
  The whole cookie step. The result is a sum so that an exception leaving the step
  (it would reach the handler's outer \<open>catch\<close>) is a value \<open>Inl\<close>; the inner
  \<open>try\<close>/\<open>catch\<close> turns a failed read into the empty header.
\<close>

definition loadCookies :: "cookies_file \<Rightarrow> jsstring + jsstring" where
  "loadCookies file =
     (if \<not> existsSync file then Inr []
      else
        (case readFileSync file of
           Inl cookieError \<Rightarrow> Inr []
         | Inr cookiesContent \<Rightarrow>
             (let cookieLines = split cookiesContent NL;
                  cookies = cookie_loop cookieLines []
              in if length cookies > 0 then Inr (join cookies (lit ''; '')) else Inr [])))"

subsection \<open>src/unnamed/part_000, lines 38 to 77\<close>

definition cookies_part000 :: "jsstring \<Rightarrow> jsstring list" where
  "cookies_part000 cookiesContent =
     (let cookieLines = split cookiesContent NL in
      map the
        (filter (\<lambda>cookie. cookie \<noteq> None)
          (map (\<lambda>line.
                  let parts = split line TAB in
                  if length parts \<ge> 7 then Some (parts ! 5 @ lit ''='' @ parts ! 6)
                  else None)
            (filter (\<lambda>line. trim line \<noteq> [] \<and> \<not> startsWith line (lit ''#'')
                              \<and> \<not> startsWith line (lit ''//''))
               cookieLines))))"

definition loadCookies_part000 :: "cookies_file \<Rightarrow> jsstring + jsstring" where
  "loadCookies_part000 file =
     (if existsSync file then
        (case readFileSync file of
           Inl cookieError \<Rightarrow> Inr []
         | Inr cookiesContent \<Rightarrow>
             (let cookies = cookies_part000 cookiesContent
              in if length cookies > 0 then Inr (join cookies (lit ''; '')) else Inr []))
      else Inr [])"

subsection \<open>The parsing rule in the words of the specification\<close>

text \<open>
  Per line: trim; skip an empty line and a line beginning with \<open>#\<close> or \<open>//\<close>; split
  on tabs; with at least 7 fields, fields 5 and 6 are name and value; a token is
  emitted only if both are non-empty.
\<close>

definition spec_line_token :: "jsstring \<Rightarrow> (jsstring \<times> jsstring) option" where
  "spec_line_token line =
     (let t = trim line in
      if t = [] \<or> startsWith t (lit ''#'') \<or> startsWith t (lit ''//'') then None
      else
        let fields = split t TAB in
        if length fields \<ge> 7 \<and> fields ! 5 \<noteq> [] \<and> fields ! 6 \<noteq> []
        then Some (fields ! 5, fields ! 6)
        else None)"

definition spec_tokens :: "jsstring \<Rightarrow> (jsstring \<times> jsstring) list" where
  "spec_tokens content = List.map_filter spec_line_token (split content NL)"

definition render_token :: "jsstring \<times> jsstring \<Rightarrow> jsstring" where
  "render_token t = fst t @ lit ''='' @ snd t"

section \<open>Video information and format selection\<close>

text \<open>
  A format descriptor as \<open>ytdl.getInfo\<close> delivers it, with the fields the handlers
  read. \<open>height\<close> and \<open>contentLength\<close> may be undefined; \<open>contentLength\<close> is a
  string of digits. \<open>itag\<close> stands for the rest of the descriptor, which the handlers
  pass on unread.
\<close>

record videoFormat =
  itag :: nat
  container :: jsstring
  hasVideo :: bool
  hasAudio :: bool
  height :: "nat option"
  contentLength :: "jsstring option"

record videoInfo =
  formats :: "videoFormat list"
  title :: jsstring

text \<open>
  Modelled from the spec: \<open>ytdl.filterFormats(formats, 'videoandaudio')\<close> belongs to
  the ytdl-core package, which is not part of the repository. Section 4.2 of the
  specification describes it as the filter that keeps the variants in which both the
  video and the audio component are present.
\<close>

definition filterFormats_videoandaudio :: "videoFormat list \<Rightarrow> videoFormat list" where
  "filterFormats_videoandaudio fs = filter (\<lambda>format. hasVideo format \<and> hasAudio format) fs"

text \<open>
  src/api/download.js, lines 96 to 113. \<open>None\<close> is the early return with status 400.
\<close>

definition selectedFormat :: "videoFormat list \<Rightarrow> videoFormat option" where
  "selectedFormat info_formats =
     (let formats = filterFormats_videoandaudio info_formats in
      if length formats = 0 then
        (let videoFormats = filter (\<lambda>format. hasVideo format) info_formats in
         if length videoFormats = 0 then None else Some (videoFormats ! 0))
      else Some (formats ! 0))"

text \<open>
  src/unnamed/part_000, lines 91 to 112. \<open>format.height || 0\<close> reads an undefined
  height as 0. \<open>Array.prototype.sort\<close> with the comparator
  \<open>getHeight(a) - getHeight(b)\<close> is a stable sort by \<open>getHeight\<close>; the stable sorted
  arrangement of a list is unique, and \<open>sort_key\<close> computes it.
\<close>

definition getHeight :: "videoFormat \<Rightarrow> nat" where
  "getHeight format = (case height format of None \<Rightarrow> 0 | Some h \<Rightarrow> h)"

definition mp4_formats :: "videoFormat list \<Rightarrow> videoFormat list" where
  "mp4_formats info_formats =
     filter (\<lambda>format. container format = lit ''mp4'' \<and> hasVideo format \<and> hasAudio format)
       info_formats"

definition selectedFormat_part000 :: "videoFormat list \<Rightarrow> videoFormat option" where
  "selectedFormat_part000 info_formats =
     (let formats = mp4_formats info_formats in
      if length formats = 0 then None
      else (let sortedFormats = sort_key getHeight formats in Some (sortedFormats ! 0)))"

section \<open>File names\<close>

definition UNDERSCORE :: jschar where
  "UNDERSCORE = 0x5F"

text \<open>
  src/api/download.js, lines 116 to 119: the characters \<open>< > : " / \ | ? *\<close> become
  underscores, then every run of white space becomes one underscore, then the first
  100 code units are kept, and the empty result is replaced by \<open>video\<close>.
\<close>

definition isForbidden :: "jschar \<Rightarrow> bool" where
  "isForbidden c \<longleftrightarrow> c \<in> set [0x3C, 0x3E, 0x3A, 0x22, 0x2F, 0x5C, 0x7C, 0x3F, 0x2A]"

function replace_ws_runs :: "jsstring \<Rightarrow> jsstring" where
  "replace_ws_runs [] = []"
| "replace_ws_runs (c # cs) =
     (if isWhiteSpace c then UNDERSCORE # replace_ws_runs (dropWhile isWhiteSpace cs)
      else c # replace_ws_runs cs)"
  by pat_completeness auto
termination
  by (relation "measure length") (auto simp: le_imp_less_Suc length_dropWhile_le)

definition safeFilename :: "jsstring \<Rightarrow> jsstring" where
  "safeFilename video_title =
     (let s = substring0
                (replace_ws_runs (map (\<lambda>c. if isForbidden c then UNDERSCORE else c) video_title))
                100
      in if s = [] then lit ''video'' else s)"

text \<open>
  src/unnamed/part_000, lines 115 to 117: every code unit outside \<open>a-z\<close>, \<open>A-Z\<close>,
  \<open>0-9\<close> becomes an underscore, and the first 50 code units are kept.
\<close>

definition isAlnum :: "jschar \<Rightarrow> bool" where
  "isAlnum c \<longleftrightarrow> (0x30 \<le> c \<and> c \<le> 0x39) \<or> (0x41 \<le> c \<and> c \<le> 0x5A) \<or> (0x61 \<le> c \<and> c \<le> 0x7A)"

definition safeFilename_part000 :: "jsstring \<Rightarrow> jsstring" where
  "safeFilename_part000 video_title =
     (let s = substring0 (map (\<lambda>c. if isAlnum c then c else UNDERSCORE) video_title) 50
      in if s = [] then lit ''video'' else s)"

section \<open>Requests, responses and the environment\<close>

text \<open>
  What a handler does to the response object \<open>res\<close> is recorded as the list of calls
  in the order they are made. \<open>Json\<close> is \<open>res.json(payload)\<close>, which sends the headers
  and the body and ends the response; \<open>Write\<close> and \<open>End\<close> are the calls that
  \<open>videoStream.pipe(res)\<close> makes for a chunk of data and for the end of the stream.
  \<open>res.headersSent\<close> is true once any of these three has happened.
\<close>

type_synonym payload = "(jsstring \<times> jsstring) list"

datatype res_action =
    Status nat
  | SetHeader jsstring jsstring
  | Json payload
  | Write "8 word list"
  | End

type_synonym response = "res_action list"

fun commits :: "res_action \<Rightarrow> bool" where
  "commits (Json p) = True"
| "commits (Write chunk) = True"
| "commits End = True"
| "commits (Status n) = False"
| "commits (SetHeader k v) = False"

definition headersSent :: "response \<Rightarrow> bool" where
  "headersSent r \<longleftrightarrow> list_ex commits r"

text \<open>
  The response is finished once \<open>res.json\<close> or \<open>res.end\<close> has been called; a finished
  response takes no more writes and cannot be ended again.
\<close>

fun ends :: "res_action \<Rightarrow> bool" where
  "ends (Json p) = True"
| "ends End = True"
| "ends (Write chunk) = False"
| "ends (Status n) = False"
| "ends (SetHeader k v) = False"

definition finished :: "response \<Rightarrow> bool" where
  "finished r \<longleftrightarrow> list_ex ends r"

fun isJson :: "res_action \<Rightarrow> bool" where
  "isJson (Json p) = True"
| "isJson (Status n) = False"
| "isJson (SetHeader k v) = False"
| "isJson (Write chunk) = False"
| "isJson End = False"

text \<open>
  \<open>res.setHeader(name, value)\<close> of Node.js throws a \<open>TypeError\<close> when the value holds a
  code unit other than a tab, \<open>0x20\<close> to \<open>0x7E\<close> and \<open>0x80\<close> to \<open>0xFF\<close>, and the header
  is not set then. \<open>Inl\<close> carries the response as it was and the message of the error.
\<close>

definition validHeaderChar :: "jschar \<Rightarrow> bool" where
  "validHeaderChar c \<longleftrightarrow> c = 0x09 \<or> (0x20 \<le> c \<and> c \<le> 0x7E) \<or> (0x80 \<le> c \<and> c \<le> 0xFF)"

definition checkInvalidHeaderChar :: "jsstring \<Rightarrow> bool" where
  "checkInvalidHeaderChar val \<longleftrightarrow> list_ex (\<lambda>c. \<not> validHeaderChar c) val"

definition setHeader :: "response \<Rightarrow> jsstring \<Rightarrow> jsstring \<Rightarrow> (response \<times> jsstring) + response" where
  "setHeader r name val =
     (if checkInvalidHeaderChar val
      then Inl (r, lit ''Invalid character in header content ['' @ [0x22] @ name @ [0x22]
                     @ lit '']'')
      else Inr (r @ [SetHeader name val]))"

record request =
  req_method :: jsstring
  query_url :: "jsstring option"

text \<open>
  \<open>requestOptions\<close> is \<open>{}\<close> (\<open>None\<close>) or \<open>{ headers: ... }\<close>. The environment of a
  request: \<open>ytdl.validateURL\<close>, the cookie file, and \<open>ytdl.getInfo\<close>, which returns
  the video information or throws an error with a message (\<open>Inl\<close>).
\<close>

type_synonym requestOptions = "(jsstring \<times> jsstring) list option"

record env =
  validateURL :: "jsstring \<Rightarrow> bool"
  cookiesFile :: cookies_file
  getInfo :: "jsstring \<Rightarrow> requestOptions \<Rightarrow> jsstring + videoInfo"

section \<open>The handler of src/api/download.js\<close>

text \<open>
  The \<open>catch (error)\<close> block, lines 161 to 190, as a function of \<open>error.message\<close>.
\<close>

definition catch_block :: "jsstring \<Rightarrow> response" where
  "catch_block message =
     (if includes_str message (lit ''private'') \<or> includes_str message (lit ''unavailable'')
      then [Status 403,
            Json [(lit ''error'', lit ''Video is private or unavailable''),
                  (lit ''note'', lit ''If testing private videos, ensure cookies.txt contains valid authentication cookies'')]]
      else if includes_str message (lit ''cookies'') \<or> includes_str message (lit ''authentication'')
      then [Status 403,
            Json [(lit ''error'', lit ''Authentication required''),
                  (lit ''note'', lit ''Check cookies.txt file for valid YouTube session cookies'')]]
      else if includes_str message (lit ''format'')
      then [Status 400,
            Json [(lit ''error'', lit ''No supported format available''),
                  (lit ''details'', message)]]
      else [Status 500,
            Json [(lit ''error'', lit ''Failed to process download request''),
                  (lit ''details'', substring0 message 100)]])"

definition missing_url :: response where
  "missing_url =
     [Status 400,
      Json [(lit ''error'', lit ''Missing required parameter: url''),
            (lit ''usage'', lit ''/api/download?url=YOUTUBE_URL'')]]"

definition invalid_url :: response where
  "invalid_url =
     [Status 400,
      Json [(lit ''error'', lit ''Invalid YouTube URL format''),
            (lit ''example'', lit ''https://www.youtube.com/watch?v=dQw4w9WgXcQ'')]]"

definition no_format :: response where
  "no_format =
     [Status 400, Json [(lit ''error'', lit ''No downloadable format available for this video'')]]"

definition requestOptions_of :: "jsstring \<Rightarrow> requestOptions" where
  "requestOptions_of cookieHeader =
     (if cookieHeader \<noteq> []
      then Some [(lit ''Cookie'', cookieHeader),
                 (lit ''User-Agent'',
                  lit ''Mozilla/5.0 (Windows NT 10.0; Win64; x64) AppleWebKit/537.36'')]
      else None)"

text \<open>
  Lines 116 to 127: the headers of the download, set one after the other; the first
  call of \<open>res.setHeader\<close> that throws ends the sequence.
\<close>

definition download_headers ::
    "videoInfo \<Rightarrow> videoFormat \<Rightarrow> (response \<times> jsstring) + response" where
  "download_headers info format =
     (case setHeader [] (lit ''Content-Type'') (lit ''video/mp4'') of
        Inl failure \<Rightarrow> Inl failure
      | Inr r1 \<Rightarrow>
          (case setHeader r1 (lit ''Content-Disposition'')
                  (lit ''attachment; filename='' @ [0x22] @ safeFilename (title info)
                     @ lit ''.mp4'' @ [0x22]) of
             Inl failure \<Rightarrow> Inl failure
           | Inr r2 \<Rightarrow>
               (case contentLength format of
                  None \<Rightarrow> Inr r2
                | Some len \<Rightarrow>
                    if len \<noteq> [] then setHeader r2 (lit ''Content-Length'') len else Inr r2)))"

text \<open>
  Lines 115 to 159 with the \<open>catch\<close> block: when a header is refused, the error is
  caught, the answer of the \<open>catch\<close> block follows the headers set so far, and no
  stream is opened; otherwise the stream is opened for the selected format and piped
  into the response.
\<close>

definition start_download :: "videoInfo \<Rightarrow> videoFormat \<Rightarrow> response \<times> videoFormat option" where
  "start_download info format =
     (case download_headers info format of
        Inl (r, message) \<Rightarrow> (r @ catch_block message, None)
      | Inr r \<Rightarrow> (r, Some format))"

text \<open>
  The handler up to the point where it returns: the calls made on \<open>res\<close>, and the
  format for which the byte stream \<open>videoStream\<close> was opened and piped into \<open>res\<close>,
  if one was. The stream is opened with the option \<open>format: selectedFormat\<close>, and the
  headers are those of the same format.
\<close>

definition handler :: "env \<Rightarrow> request \<Rightarrow> response \<times> videoFormat option" where
  "handler e req =
     (if req_method req \<noteq> lit ''GET''
      then ([Status 405, Json [(lit ''error'', lit ''Method not allowed. Use GET.'')]], None)
      else
        (case query_url req of
           None \<Rightarrow> (missing_url, None)
         | Some url \<Rightarrow>
             if url = [] then (missing_url, None)
             else if \<not> validateURL e url then (invalid_url, None)
             else
               (case loadCookies (cookiesFile e) of
                  Inl message \<Rightarrow> (catch_block message, None)
                | Inr cookieHeader \<Rightarrow>
                    (case getInfo e url (requestOptions_of cookieHeader) of
                       Inl message \<Rightarrow> (catch_block message, None)
                     | Inr info \<Rightarrow>
                         (case selectedFormat (formats info) of
                            None \<Rightarrow> (no_format, None)
                          | Some format \<Rightarrow> start_download info format)))))"

section \<open>The handler of src/unnamed/part_000\<close>

definition catch_block_part000 :: "jsstring \<Rightarrow> response" where
  "catch_block_part000 message =
     (if includes_str message (lit ''private'') \<or> includes_str message (lit ''unavailable'')
      then [Status 403,
            Json [(lit ''error'', lit ''Video unavailable. This might require authentication.'')]]
      else if includes_str message (lit ''cookies'')
      then [Status 403,
            Json [(lit ''error'', lit ''Authentication required. Check cookies.txt file.'')]]
      else [Status 500,
            Json [(lit ''error'', lit ''Failed to process download request''),
                  (lit ''details'', message)]])"

definition missing_url_part000 :: response where
  "missing_url_part000 = [Status 400, Json [(lit ''error'', lit ''Missing required parameter: url'')]]"

definition invalid_url_part000 :: response where
  "invalid_url_part000 = [Status 400, Json [(lit ''error'', lit ''Invalid YouTube URL format'')]]"

definition no_format_part000 :: response where
  "no_format_part000 =
     [Status 400, Json [(lit ''error'', lit ''No MP4 format available for this video'')]]"

definition requestOptions_of_part000 :: "jsstring \<Rightarrow> requestOptions" where
  "requestOptions_of_part000 cookieHeader =
     (if cookieHeader \<noteq> [] then Some [(lit ''Cookie'', cookieHeader)] else None)"

text \<open>Lines 115 to 121; the last header is \<open>selectedFormat.contentLength || 'unknown'\<close>.\<close>

definition download_headers_part000 ::
    "videoInfo \<Rightarrow> videoFormat \<Rightarrow> (response \<times> jsstring) + response" where
  "download_headers_part000 info format =
     (case setHeader [] (lit ''Content-Type'') (lit ''video/mp4'') of
        Inl failure \<Rightarrow> Inl failure
      | Inr r1 \<Rightarrow>
          (case setHeader r1 (lit ''Content-Disposition'')
                  (lit ''attachment; filename='' @ [0x22] @ safeFilename_part000 (title info)
                     @ lit ''.mp4'' @ [0x22]) of
             Inl failure \<Rightarrow> Inl failure
           | Inr r2 \<Rightarrow>
               setHeader r2 (lit ''Content-Length'')
                 (case contentLength format of
                    None \<Rightarrow> lit ''unknown''
                  | Some len \<Rightarrow> if len \<noteq> [] then len else lit ''unknown'')))"

definition start_download_part000 ::
    "videoInfo \<Rightarrow> videoFormat \<Rightarrow> response \<times> videoFormat option" where
  "start_download_part000 info format =
     (case download_headers_part000 info format of
        Inl (r, message) \<Rightarrow> (r @ catch_block_part000 message, None)
      | Inr r \<Rightarrow> (r, Some format))"

definition handler_part000 :: "env \<Rightarrow> request \<Rightarrow> response \<times> videoFormat option" where
  "handler_part000 e req =
     (if req_method req \<noteq> lit ''GET''
      then ([Status 405, Json [(lit ''error'', lit ''Method not allowed. Use GET.'')]], None)
      else
        (case query_url req of
           None \<Rightarrow> (missing_url_part000, None)
         | Some url \<Rightarrow>
             if url = [] then (missing_url_part000, None)
             else if \<not> validateURL e url then (invalid_url_part000, None)
             else
               (case loadCookies_part000 (cookiesFile e) of
                  Inl message \<Rightarrow> (catch_block_part000 message, None)
                | Inr cookieHeader \<Rightarrow>
                    (case getInfo e url (requestOptions_of_part000 cookieHeader) of
                       Inl message \<Rightarrow> (catch_block_part000 message, None)
                     | Inr info \<Rightarrow>
                         (case selectedFormat_part000 (formats info) of
                            None \<Rightarrow> (no_format_part000, None)
                          | Some format \<Rightarrow> start_download_part000 info format)))))"

section \<open>Streaming\<close>

text \<open>
  After the handler has returned, the listeners it attached react to what happens:
  a chunk of data arrives from upstream or the upstream data ends (both handled by
  \<open>videoStream.pipe(res)\<close>), the byte stream fails, or the connection of the client
  closes. \<open>destroyed\<close> records that \<open>videoStream.destroy()\<close> has been called; a
  destroyed stream reads nothing more and emits neither data nor an end nor an error.
  A chunk or an end that reaches a finished response changes nothing.
\<close>

datatype event = Data "8 word list" | StreamError jsstring | StreamEnd | ClientClose

record conn =
  res :: response
  destroyed :: bool

text \<open>
  The request object \<open>req\<close> is itself a readable stream, and it emits \<open>close\<close> once:
  when it has been read to its end, or when the connection closes, whichever comes
  first. An emitter calls the listeners that are attached at that moment, and none that
  is attached later. A \<open>data\<close> listener makes the request flow; the body of a GET
  request is empty, so such a request is read to its end, and has emitted \<open>close\<close>,
  before the awaited \<open>getInfo\<close> resumes the handler. A request that nobody reads stays
  open until the connection closes.

  src/api/download.js attaches a \<open>data\<close> and an \<open>end\<close> listener in lines 15 and 16,
  before it awaits \<open>getInfo\<close>, and the \<open>close\<close> listener in line 156, after it.
  src/unnamed/part_000 attaches no listener before \<open>getInfo\<close>, and the \<open>close\<close> listener
  in line 143.
\<close>

datatype req_listener = OnData | OnEnd | OnClose

definition listeners_before_getInfo :: "req_listener list" where
  "listeners_before_getInfo = [OnData, OnEnd]"

definition listeners_before_getInfo_part000 :: "req_listener list" where
  "listeners_before_getInfo_part000 = []"

definition request_closed_early :: "req_listener list \<Rightarrow> bool" where
  "request_closed_early listeners \<longleftrightarrow> OnData \<in> set listeners"

text \<open>
  src/api/download.js, lines 139 to 159. The last equation is the \<open>close\<close> listener
  of line 156, which runs when the request emits \<open>close\<close> after it was attached.
\<close>

fun on_event :: "conn \<Rightarrow> event \<Rightarrow> conn" where
  "on_event s (Data chunk) =
     (if destroyed s \<or> finished (res s) then s else s\<lparr>res := res s @ [Write chunk]\<rparr>)"
| "on_event s (StreamError message) =
     (if destroyed s then s
      else if \<not> headersSent (res s)
      then s\<lparr>res := res s @ [Status 500,
                               Json [(lit ''error'', lit ''Stream failed''),
                                     (lit ''details'', message)]]\<rparr>
      else s)"
| "on_event s StreamEnd =
     (if destroyed s \<or> finished (res s) then s else s\<lparr>res := res s @ [End]\<rparr>)"
| "on_event s ClientClose =
     (if request_closed_early listeners_before_getInfo then s else s\<lparr>destroyed := True\<rparr>)"

text \<open>src/unnamed/part_000, lines 131 to 145.\<close>

fun on_event_part000 :: "conn \<Rightarrow> event \<Rightarrow> conn" where
  "on_event_part000 s (Data chunk) =
     (if destroyed s \<or> finished (res s) then s else s\<lparr>res := res s @ [Write chunk]\<rparr>)"
| "on_event_part000 s (StreamError message) =
     (if destroyed s then s
      else if \<not> headersSent (res s)
      then s\<lparr>res := res s @ [Status 500, Json [(lit ''error'', lit ''Stream failed'')]]\<rparr>
      else s)"
| "on_event_part000 s StreamEnd =
     (if destroyed s \<or> finished (res s) then s else s\<lparr>res := res s @ [End]\<rparr>)"
| "on_event_part000 s ClientClose =
     (if request_closed_early listeners_before_getInfo_part000 then s
      else s\<lparr>destroyed := True\<rparr>)"

text \<open>
  The events of a stream in the order they happen, from the response as the handler
  left it; and a whole request: the handler, then the events. A request answered
  without opening a stream has no listeners, and its response is final.
\<close>

definition stream_events :: "response \<Rightarrow> event list \<Rightarrow> conn" where
  "stream_events r events = foldl on_event \<lparr>res = r, destroyed = False\<rparr> events"

definition stream_events_part000 :: "response \<Rightarrow> event list \<Rightarrow> conn" where
  "stream_events_part000 r events = foldl on_event_part000 \<lparr>res = r, destroyed = False\<rparr> events"

definition serve :: "env \<Rightarrow> request \<Rightarrow> event list \<Rightarrow> response" where
  "serve e req events =
     (case handler e req of
        (r, None) \<Rightarrow> r
      | (r, Some format) \<Rightarrow> res (stream_events r events))"

definition serve_part000 :: "env \<Rightarrow> request \<Rightarrow> event list \<Rightarrow> response" where
  "serve_part000 e req events =
     (case handler_part000 e req of
        (r, None) \<Rightarrow> r
      | (r, Some format) \<Rightarrow> res (stream_events_part000 r events))"

section \<open>Notions used to state the properties\<close>

text \<open>
  The result of the call of \<open>ytdl.getInfo\<close>, when the handler gets as far as making
  it: the method is GET, the \<open>url\<close> parameter is present, non-empty and valid, and the
  cookie step has produced a header. \<open>None\<close> says that the handler answered earlier.
\<close>

definition getInfo_result :: "env \<Rightarrow> request \<Rightarrow> (jsstring + videoInfo) option" where
  "getInfo_result e req =
     (if req_method req \<noteq> lit ''GET'' then None
      else
        (case query_url req of
           None \<Rightarrow> None
         | Some url \<Rightarrow>
             if url = [] \<or> \<not> validateURL e url then None
             else
               (case loadCookies (cookiesFile e) of
                  Inl message \<Rightarrow> None
                | Inr cookieHeader \<Rightarrow> Some (getInfo e url (requestOptions_of cookieHeader)))))"

definition getInfo_result_part000 :: "env \<Rightarrow> request \<Rightarrow> (jsstring + videoInfo) option" where
  "getInfo_result_part000 e req =
     (if req_method req \<noteq> lit ''GET'' then None
      else
        (case query_url req of
           None \<Rightarrow> None
         | Some url \<Rightarrow>
             if url = [] \<or> \<not> validateURL e url then None
             else
               (case loadCookies_part000 (cookiesFile e) of
                  Inl message \<Rightarrow> None
                | Inr cookieHeader \<Rightarrow>
                    Some (getInfo e url (requestOptions_of_part000 cookieHeader)))))"

text \<open>
  The fields of a line as the parsing rule sees them (after trimming), a line with 7 or
  more fields and non-empty name and value at indices 5 and 6, a line that begins with
  a comment marker, and the token \<open>name=value\<close> of a line.
\<close>

definition fields_of :: "jsstring \<Rightarrow> jsstring list" where
  "fields_of line = split (trim line) TAB"

definition well_formed_line :: "jsstring \<Rightarrow> bool" where
  "well_formed_line line \<longleftrightarrow>
     length (fields_of line) \<ge> 7 \<and> fields_of line ! 5 \<noteq> [] \<and> fields_of line ! 6 \<noteq> []"

definition is_comment_line :: "jsstring \<Rightarrow> bool" where
  "is_comment_line line \<longleftrightarrow>
     startsWith (trim line) (lit ''#'') \<or> startsWith (trim line) (lit ''//'')"

definition line_token :: "jsstring \<Rightarrow> jsstring" where
  "line_token line = fields_of line ! 5 @ lit ''='' @ fields_of line ! 6"

text \<open>
  A response in which no JSON payload is sent once the headers have been sent;
  \<open>sent\<close> says whether they had been sent before the first call of the list.
\<close>

fun json_before_commit :: "bool \<Rightarrow> response \<Rightarrow> bool" where
  "json_before_commit sent [] = True"
| "json_before_commit sent (a # r) =
     ((if isJson a then \<not> sent else True) \<and> json_before_commit (sent \<or> commits a) r)"

section \<open>Example inputs\<close>

definition example_env :: "jsstring + videoInfo \<Rightarrow> env" where
  "example_env result =
     \<lparr>validateURL = (\<lambda>url. True), cookiesFile = Absent, getInfo = (\<lambda>url options. result)\<rparr>"

definition example_request :: request where
  "example_request =
     \<lparr>req_method = lit ''GET'',
      query_url = Some (lit ''https://www.youtube.com/watch?v=dQw4w9WgXcQ'')\<rparr>"

definition example_format :: "nat \<Rightarrow> string \<Rightarrow> bool \<Rightarrow> bool \<Rightarrow> nat \<Rightarrow> videoFormat" where
  "example_format i c v a h =
     \<lparr>itag = i, container = lit c, hasVideo = v, hasAudio = a, height = Some h,
      contentLength = None\<rparr>"

definition example_info :: "videoFormat list \<Rightarrow> videoInfo" where
  "example_info fs = \<lparr>formats = fs, title = lit ''clip''\<rparr>"

definition example_titled_info :: "jsstring \<Rightarrow> videoFormat list \<Rightarrow> videoInfo" where
  "example_titled_info video_title fs = \<lparr>formats = fs, title = video_title\<rparr>"

definition example_cookie_line :: "string \<Rightarrow> string \<Rightarrow> string \<Rightarrow> jsstring" where
  "example_cookie_line domain name val =
     join [lit domain, lit ''TRUE'', lit ''/'', lit ''TRUE'', lit ''0'', lit name, lit val] [TAB]"

definition example_format_error :: jsstring where
  "example_format_error =
     lit ''No such format found: 18. The player response of the requested video lists other itags only, none of which matches the request''"

definition example_generic_error :: jsstring where
  "example_generic_error =
     lit ''Status code: 410. The extractor could not read the player response of the requested video, and the reply body was not JSON at all''"

definition example_private_error :: jsstring where
  "example_private_error =
     lit ''This is a private video. No format or cookies can be used to fetch it''"

section \<open>Properties of the string functions\<close>

lemma split_not_Nil: "split s sep \<noteq> []"
  by (induction s) (auto split: list.splits)

lemma startsWith_iff: "startsWith s p \<longleftrightarrow> (\<exists>b. s = p @ b)"
  unfolding startsWith_def
  by (metis append_eq_conv_conj append_take_drop_id)

lemma includes_str_iff: "includes_str s p \<longleftrightarrow> (\<exists>a b. s = a @ p @ b)"
proof (induction s)
  case Nil
  then show ?case by simp
next
  case (Cons c cs)
  show ?case
  proof
    assume "includes_str (c # cs) p"
    then consider "startsWith (c # cs) p" | "includes_str cs p" by auto
    then show "\<exists>a b. c # cs = a @ p @ b"
    proof cases
      case 1
      then obtain b where "c # cs = p @ b" by (auto simp: startsWith_iff)
      then have "c # cs = [] @ p @ b" by simp
      then show ?thesis by blast
    next
      case 2
      with Cons.IH obtain a b where "cs = a @ p @ b" by blast
      then have "c # cs = (c # a) @ p @ b" by simp
      then show ?thesis by blast
    qed
  next
    assume "\<exists>a b. c # cs = a @ p @ b"
    then obtain a b where e: "c # cs = a @ p @ b" by blast
    show "includes_str (c # cs) p"
    proof (cases a)
      case Nil
      with e have "startsWith (c # cs) p" by (simp add: startsWith_iff)
      then show ?thesis by simp
    next
      case (Cons c' a')
      with e have "cs = a' @ p @ b" by simp
      with Cons.IH show ?thesis by auto
    qed
  qed
qed

lemma join_contains: "x \<in> set xs \<Longrightarrow> \<exists>a b. join xs sep = a @ x @ b"
proof (induction xs sep rule: join.induct)
  case (1 sep)
  then show ?case by simp
next
  case (2 y sep)
  then have "join [y] sep = [] @ x @ []" by simp
  then show ?case by blast
next
  case (3 y z zs sep)
  show ?case
  proof (cases "x = y")
    case True
    then have "join (y # z # zs) sep = [] @ x @ (sep @ join (z # zs) sep)" by simp
    then show ?thesis by blast
  next
    case False
    with 3 obtain a b where "join (z # zs) sep = a @ x @ b" by auto
    then have "join (y # z # zs) sep = (y @ sep @ a) @ x @ b" by simp
    then show ?thesis by blast
  qed
qed

section \<open>Cookie parsing\<close>

text \<open>
  The loop of src/api/download.js computes the tokens of the parsing rule, in the
  order of the lines, behind whatever the array already holds.
\<close>

lemma cookie_loop_spec:
  "cookie_loop ls acc = acc @ map render_token (List.map_filter spec_line_token ls)"
  by (induction ls arbitrary: acc)
     (auto simp: Let_def spec_line_token_def render_token_def)

lemma download_js_cookies_follow_rule:
  "cookie_loop (split content NL) [] = map render_token (spec_tokens content)"
  by (simp add: cookie_loop_spec spec_tokens_def)

lemma spec_line_token_well_formed:
  "\<not> is_comment_line line \<Longrightarrow> well_formed_line line \<Longrightarrow>
   spec_line_token line = Some (fields_of line ! 5, fields_of line ! 6)"
  by (auto simp: spec_line_token_def is_comment_line_def well_formed_line_def fields_of_def Let_def)

lemma map_filter_all_Some:
  "\<forall>x\<in>set xs. f x = Some (g x) \<Longrightarrow> List.map_filter f xs = map g xs"
  by (induction xs) auto

text \<open>
  Claim C3. The parsing rule (trim the line; skip it when it is empty or begins with
  \<open>#\<close> or \<open>//\<close>; split on tabs; with 7 or more fields take fields 5 and 6 as name and
  value; emit the token if and only if both are non-empty) is what the loop of
  src/api/download.js does (lemma \<open>download_js_cookies_follow_rule\<close>). The handler of
  src/unnamed/part_000 tests and splits the untrimmed line and does not look at
  whether name and value are empty. On a line ending in a carriage return, as every
  line of a file with CRLF line ends does, it emits the value with the carriage return,
  where the rule emits \<open>SID=abc\<close>; on a line whose value field is empty it emits
  \<open>SID=\<close>, and on a line whose name field is empty it emits \<open>=abc\<close>, where the rule
  emits nothing.
\<close>

theorem part000_cookie_parsing_untrimmed:
  "cookies_part000 (example_cookie_line ''.youtube.com'' ''SID'' ''abc'' @ [0x0D])
     = [lit ''SID=abc'' @ [0x0D]]
   \<and> map render_token (spec_tokens (example_cookie_line ''.youtube.com'' ''SID'' ''abc'' @ [0x0D]))
     = [lit ''SID=abc'']
   \<and> cookie_loop (split (example_cookie_line ''.youtube.com'' ''SID'' ''abc'' @ [0x0D]) NL) []
     = [lit ''SID=abc'']
   \<and> cookies_part000 (example_cookie_line ''.youtube.com'' ''SID'' '''') = [lit ''SID='']
   \<and> spec_tokens (example_cookie_line ''.youtube.com'' ''SID'' '''') = []
   \<and> cookies_part000 (example_cookie_line ''.youtube.com'' '''' ''abc'') = [lit ''=abc'']
   \<and> spec_tokens (example_cookie_line ''.youtube.com'' '''' ''abc'') = []"
  by code_simp

text \<open>
  In both handlers the cookie step returns a header and raises nothing, whatever the
  state of the file, and the header is empty when the file is absent and when reading
  it fails. In src/api/download.js the header is empty when the file yields no token
  by the parsing rule.
\<close>

lemma cookie_loading_total:
  "(\<exists>header. loadCookies file = Inr header)
   \<and> (\<exists>header. loadCookies_part000 file = Inr header)
   \<and> loadCookies Absent = Inr [] \<and> loadCookies_part000 Absent = Inr []
   \<and> loadCookies (Unreadable message) = Inr []
   \<and> loadCookies_part000 (Unreadable message) = Inr []
   \<and> (spec_tokens content = [] \<longrightarrow> loadCookies (Readable content) = Inr [])"
proof -
  have "\<exists>header. loadCookies file = Inr header"
    by (cases "file") (simp_all add: loadCookies_def existsSync_def Let_def)
  moreover have "\<exists>header. loadCookies_part000 file = Inr header"
    by (cases "file") (simp_all add: loadCookies_part000_def existsSync_def Let_def)
  ultimately show ?thesis
    by (simp add: loadCookies_def loadCookies_part000_def existsSync_def
          download_js_cookies_follow_rule)
qed

text \<open>
  Claim C4. The cookie step of either handler never raises, and its header is empty
  for an absent and for an unreadable file; in src/api/download.js it is also empty
  whenever the file yields no token (lemma \<open>cookie_loading_total\<close>). In
  src/unnamed/part_000 a file that yields no token can give a header that is not
  empty. The first file below is one line whose name and value fields are both empty:
  the parsing rule emits nothing, src/api/download.js gives the empty header, and
  src/unnamed/part_000 gives the header \<open>=\<close>. The second file is one indented comment
  line: src/unnamed/part_000 gives the header \<open>NAME0=VAL0\<close>.
\<close>

theorem part000_header_without_tokens:
  "spec_tokens (example_cookie_line ''.youtube.com'' '''' '''') = []
   \<and> loadCookies (Readable (example_cookie_line ''.youtube.com'' '''' '''')) = Inr []
   \<and> loadCookies_part000 (Readable (example_cookie_line ''.youtube.com'' '''' ''''))
       = Inr (lit ''='')
   \<and> is_comment_line (lit ''  '' @ example_cookie_line ''# note'' ''NAME0'' ''VAL0'')
   \<and> spec_tokens (lit ''  '' @ example_cookie_line ''# note'' ''NAME0'' ''VAL0'') = []
   \<and> loadCookies (Readable (lit ''  '' @ example_cookie_line ''# note'' ''NAME0'' ''VAL0''))
       = Inr []
   \<and> loadCookies_part000
         (Readable (lit ''  '' @ example_cookie_line ''# note'' ''NAME0'' ''VAL0''))
       = Inr (lit ''NAME0=VAL0'')"
  by code_simp

lemma well_formed_line_not_blank: "well_formed_line line \<Longrightarrow> trim line \<noteq> []"
  by (auto simp: well_formed_line_def fields_of_def)

lemma spec_line_token_cases:
  "spec_line_token line =
     (if \<not> is_comment_line line \<and> well_formed_line line
      then Some (fields_of line ! 5, fields_of line ! 6) else None)"
proof (cases "\<not> is_comment_line line \<and> well_formed_line line")
  case True
  then show ?thesis by (simp add: spec_line_token_well_formed)
next
  case False
  then show ?thesis
    by (auto simp: spec_line_token_def is_comment_line_def well_formed_line_def fields_of_def
          Let_def)
qed

text \<open>
  For every file, the header of src/api/download.js is made of the tokens of the
  lines that are not comment-marked and have the 7 fields with non-empty name and
  value, in the order of the lines; every other line is skipped.
\<close>

lemma download_js_header_of_any_file:
  "loadCookies (Readable content) =
     Inr (join (map line_token
                  (filter (\<lambda>line. \<not> is_comment_line line \<and> well_formed_line line)
                     (split content NL)))
            (lit ''; ''))"
proof -
  let ?ok = "\<lambda>line. \<not> is_comment_line line \<and> well_formed_line line"
  have "List.map_filter spec_line_token (split content NL)
          = map (\<lambda>line. (fields_of line ! 5, fields_of line ! 6)) (filter ?ok (split content NL))"
    by (simp add: map_filter_map_filter spec_line_token_cases [abs_def])
  then have "cookie_loop (split content NL) [] = map line_token (filter ?ok (split content NL))"
    by (simp add: cookie_loop_spec render_token_def line_token_def)
  then show ?thesis
    by (simp add: loadCookies_def existsSync_def Let_def)
qed

text \<open>
  Claim C5, amended. For every cookie file each of whose non-blank lines, once
  trimmed, does not begin with \<open>#\<close> or \<open>//\<close> and has 7 or more tab-separated fields with
  non-empty name and value at indices 5 and 6, the header that src/api/download.js
  produces is the tokens \<open>name=value\<close> of these lines joined with \<open>; \<close> in the order of
  the lines, and it contains each token. A blank line is one that is empty once
  trimmed, as the piece behind the last newline of a file is.
\<close>

theorem cookie_header_joins_tokens:
  assumes "\<forall>line\<in>set (split content NL).
             trim line \<noteq> [] \<longrightarrow> \<not> is_comment_line line \<and> well_formed_line line"
  shows "\<exists>header. loadCookies (Readable content) = Inr header
           \<and> header = join (map line_token
                              (filter (\<lambda>line. trim line \<noteq> []) (split content NL)))
                         (lit ''; '')
           \<and> (\<forall>line\<in>set (split content NL).
                 trim line \<noteq> [] \<longrightarrow> includes_str header (line_token line))"
proof -
  let ?lines = "split content NL"
  let ?header = "join (map line_token (filter (\<lambda>line. trim line \<noteq> []) ?lines)) (lit ''; '')"
  have "filter (\<lambda>line. \<not> is_comment_line line \<and> well_formed_line line) ?lines
          = filter (\<lambda>line. trim line \<noteq> []) ?lines"
    using assms by (intro filter_cong) (auto dest: well_formed_line_not_blank)
  then have h: "loadCookies (Readable content) = Inr ?header"
    by (simp add: download_js_header_of_any_file)
  have "\<forall>line\<in>set ?lines. trim line \<noteq> [] \<longrightarrow> includes_str ?header (line_token line)"
    by (auto simp: includes_str_iff intro!: join_contains)
  with h show ?thesis by simp
qed

theorem cookie_header_joins_tokens_witness:
  "split (example_cookie_line ''.youtube.com'' ''SID'' ''abc''
            @ NL # example_cookie_line ''.youtube.com'' ''HSID'' ''xyz'' @ [NL]) NL
     = [example_cookie_line ''.youtube.com'' ''SID'' ''abc'',
        example_cookie_line ''.youtube.com'' ''HSID'' ''xyz'', []]
   \<and> \<not> is_comment_line (example_cookie_line ''.youtube.com'' ''SID'' ''abc'')
   \<and> well_formed_line (example_cookie_line ''.youtube.com'' ''SID'' ''abc'')
   \<and> \<not> is_comment_line (example_cookie_line ''.youtube.com'' ''HSID'' ''xyz'')
   \<and> well_formed_line (example_cookie_line ''.youtube.com'' ''HSID'' ''xyz'')
   \<and> trim [] = []
   \<and> loadCookies (Readable (example_cookie_line ''.youtube.com'' ''SID'' ''abc''
                          @ NL # example_cookie_line ''.youtube.com'' ''HSID'' ''xyz'' @ [NL]))
       = Inr (lit ''SID=abc; HSID=xyz'')"
proof -
  let ?l1 = "example_cookie_line ''.youtube.com'' ''SID'' ''abc''"
  let ?l2 = "example_cookie_line ''.youtube.com'' ''HSID'' ''xyz''"
  let ?content = "?l1 @ NL # ?l2 @ [NL]"
  have s: "split ?content NL = [?l1, ?l2, []]"
    by code_simp
  have w: "\<not> is_comment_line ?l1 \<and> well_formed_line ?l1
           \<and> \<not> is_comment_line ?l2 \<and> well_formed_line ?l2"
    by code_simp
  have t: "trim [] = []"
    by (simp add: trim_def)
  have n: "trim ?l1 \<noteq> [] \<and> trim ?l2 \<noteq> []"
    using w by (simp add: well_formed_line_not_blank)
  have h: "\<forall>line\<in>set (split ?content NL).
             trim line \<noteq> [] \<longrightarrow> \<not> is_comment_line line \<and> well_formed_line line"
    using w t by (simp add: s)
  have j: "join (map line_token [?l1, ?l2]) (lit ''; '') = lit ''SID=abc; HSID=xyz''"
    by code_simp
  show ?thesis
    using s w t n j cookie_header_joins_tokens [OF h] by simp
qed

text \<open>
  Claim C5 as it is stated fails on a line that begins with a comment marker: the
  line below has 7 tab-separated fields with the name \<open>SID\<close> and the value \<open>abc\<close> at
  indices 5 and 6, both handlers skip it, and the header is empty.
\<close>

theorem comment_marked_line_dropped:
  "split (example_cookie_line ''#HttpOnly_.youtube.com'' ''SID'' ''abc'') NL
     = [example_cookie_line ''#HttpOnly_.youtube.com'' ''SID'' ''abc'']
   \<and> well_formed_line (example_cookie_line ''#HttpOnly_.youtube.com'' ''SID'' ''abc'')
   \<and> line_token (example_cookie_line ''#HttpOnly_.youtube.com'' ''SID'' ''abc'') = lit ''SID=abc''
   \<and> loadCookies (Readable (example_cookie_line ''#HttpOnly_.youtube.com'' ''SID'' ''abc''))
       = Inr []
   \<and> loadCookies_part000 (Readable (example_cookie_line ''#HttpOnly_.youtube.com'' ''SID'' ''abc''))
       = Inr []
   \<and> \<not> includes_str [] (lit ''SID=abc'')"
  by code_simp

section \<open>Format selection\<close>

lemma selectedFormat_combined:
  "filterFormats_videoandaudio fs \<noteq> [] \<Longrightarrow>
   selectedFormat fs = Some (hd (filterFormats_videoandaudio fs))"
  by (simp add: selectedFormat_def Let_def hd_conv_nth)

lemma selectedFormat_video_only:
  "filterFormats_videoandaudio fs = [] \<Longrightarrow> filter hasVideo fs \<noteq> [] \<Longrightarrow>
   selectedFormat fs = Some (hd (filter hasVideo fs))"
  by (simp add: selectedFormat_def Let_def hd_conv_nth)

lemma selectedFormat_none:
  "filterFormats_videoandaudio fs = [] \<Longrightarrow> filter hasVideo fs = [] \<Longrightarrow>
   selectedFormat fs = None"
  by (simp add: selectedFormat_def Let_def)

lemma selectedFormat_part000_none:
  "mp4_formats fs = [] \<Longrightarrow> selectedFormat_part000 fs = None"
  by (simp add: selectedFormat_part000_def Let_def)

lemma insort_key_first:
  "insort_key f x ys ! 0 = (if ys = [] \<or> f x \<le> f (ys ! 0) then x else ys ! 0)"
  by (cases ys) auto

lemma sort_key_not_Nil: "xs \<noteq> [] \<Longrightarrow> sort_key f xs \<noteq> []"
  by (cases xs) auto

text \<open>
  The first element of a stably sorted list is the first of the elements with the
  least key: everything before it in the input has a strictly greater key.
\<close>

lemma sort_key_first:
  fixes f :: "'a \<Rightarrow> nat"
  shows "xs \<noteq> [] \<Longrightarrow>
    \<exists>pre post. xs = pre @ (sort_key f xs ! 0) # post
      \<and> (\<forall>c\<in>set pre. f (sort_key f xs ! 0) < f c)
      \<and> (\<forall>c\<in>set post. f (sort_key f xs ! 0) \<le> f c)"
proof (induction xs)
  case Nil
  then show ?case by simp
next
  case (Cons x xs)
  show ?case
  proof (cases "xs = []")
    case True
    then show ?thesis by (intro exI [of _ "[]"]) simp
  next
    case False
    let ?m = "sort_key f xs ! 0"
    from Cons.IH [OF False] obtain pre post where
      d: "xs = pre @ ?m # post" and
      lt: "\<forall>c\<in>set pre. f ?m < f c" and
      le: "\<forall>c\<in>set post. f ?m \<le> f c"
      by blast
    have ne: "sort_key f xs \<noteq> []" using False by (rule sort_key_not_Nil)
    show ?thesis
    proof (cases "f x \<le> f ?m")
      case True
      then have r: "sort_key f (x # xs) ! 0 = x"
        by (simp add: insort_key_first)
      have "\<forall>c\<in>set xs. f x \<le> f c"
      proof
        fix c assume "c \<in> set xs"
        then have "c \<in> set pre \<or> c = ?m \<or> c \<in> set post"
          using d by (metis Un_iff set_ConsD set_append)
        then show "f x \<le> f c" using True lt le by fastforce
      qed
      then show ?thesis using r by (intro exI [of _ "[]"] exI [of _ xs]) simp
    next
      case greater: False
      then have r: "sort_key f (x # xs) ! 0 = ?m"
        using ne by (simp add: insort_key_first)
      have "x # xs = (x # pre) @ ?m # post" using d by simp
      moreover have "\<forall>c\<in>set (x # pre). f ?m < f c" using lt greater by auto
      ultimately show ?thesis using r le by metis
    qed
  qed
qed

lemma filter_eq_append_Cons:
  "filter P fs = pre' @ v # post' \<Longrightarrow>
   \<exists>pre post. fs = pre @ v # post \<and> filter P pre = pre' \<and> filter P post = post' \<and> P v"
proof (induction fs arbitrary: pre')
  case Nil
  then show ?case by simp
next
  case (Cons a fs)
  show ?case
  proof (cases "P a")
    case False
    with Cons.prems have "filter P fs = pre' @ v # post'" by simp
    from Cons.IH [OF this] obtain pre post where
      "fs = pre @ v # post" "filter P pre = pre'" "filter P post = post'" "P v"
      by blast
    then show ?thesis using False
      by (intro exI [of _ "a # pre"] exI [of _ post]) simp
  next
    case True
    with Cons.prems have e: "a # filter P fs = pre' @ v # post'" by simp
    show ?thesis
    proof (cases pre')
      case Nil
      with e True show ?thesis
        by (intro exI [of _ "[]"] exI [of _ fs]) simp
    next
      case (Cons b pre'')
      with e have "filter P fs = pre'' @ v # post'" and ab: "a = b" by simp_all
      from Cons.IH [OF this(1)] obtain pre post where
        "fs = pre @ v # post" "filter P pre = pre''" "filter P post = post'" "P v"
        by blast
      then show ?thesis using True Cons ab
        by (intro exI [of _ "a # pre"] exI [of _ post]) simp
    qed
  qed
qed

section \<open>The handlers after the call of getInfo\<close>

lemma handler_getInfo_throws:
  "getInfo_result e req = Some (Inl message) \<Longrightarrow> handler e req = (catch_block message, None)"
  by (auto simp: getInfo_result_def handler_def split: if_splits option.splits sum.splits)

lemma handler_getInfo_returns:
  "getInfo_result e req = Some (Inr info) \<Longrightarrow>
   handler e req =
     (case selectedFormat (formats info) of
        None \<Rightarrow> (no_format, None)
      | Some format \<Rightarrow> start_download info format)"
  by (auto simp: getInfo_result_def handler_def split: if_splits option.splits sum.splits)

lemma handler_part000_getInfo_throws:
  "getInfo_result_part000 e req = Some (Inl message) \<Longrightarrow>
   handler_part000 e req = (catch_block_part000 message, None)"
  by (auto simp: getInfo_result_part000_def handler_part000_def
           split: if_splits option.splits sum.splits)

lemma handler_part000_getInfo_returns:
  "getInfo_result_part000 e req = Some (Inr info) \<Longrightarrow>
   handler_part000 e req =
     (case selectedFormat_part000 (formats info) of
        None \<Rightarrow> (no_format_part000, None)
      | Some format \<Rightarrow> start_download_part000 info format)"
  by (auto simp: getInfo_result_part000_def handler_part000_def
           split: if_splits option.splits sum.splits)

lemma example_getInfo_result: "getInfo_result (example_env result) example_request = Some result"
  by (simp add: getInfo_result_def example_env_def example_request_def loadCookies_def
        existsSync_def lit_def requestOptions_of_def)

lemma example_getInfo_result_part000:
  "getInfo_result_part000 (example_env result) example_request = Some result"
  by (simp add: getInfo_result_part000_def example_env_def example_request_def
        loadCookies_part000_def existsSync_def lit_def)

subsection \<open>Setting the headers\<close>

lemma checkInvalidHeaderChar_append:
  "checkInvalidHeaderChar (a @ b) \<longleftrightarrow> checkInvalidHeaderChar a \<or> checkInvalidHeaderChar b"
  by (simp add: checkInvalidHeaderChar_def)

lemma checkInvalidHeaderChar_literals:
  "\<not> checkInvalidHeaderChar (lit ''video/mp4'')"
  "\<not> checkInvalidHeaderChar (lit ''attachment; filename='')"
  "\<not> checkInvalidHeaderChar [0x22]"
  "\<not> checkInvalidHeaderChar (lit ''.mp4'')"
  "\<not> checkInvalidHeaderChar (lit ''unknown'')"
  by code_simp+

lemma content_disposition_check:
  "checkInvalidHeaderChar (lit ''attachment; filename='' @ [0x22] @ name @ lit ''.mp4'' @ [0x22])
     \<longleftrightarrow> checkInvalidHeaderChar name"
proof -
  have q: "validHeaderChar 0x22"
    by (simp add: validHeaderChar_def)
  have "checkInvalidHeaderChar ([0x22] @ name @ lit ''.mp4'' @ [0x22])
          \<longleftrightarrow> checkInvalidHeaderChar name"
    unfolding checkInvalidHeaderChar_append
    using checkInvalidHeaderChar_literals(3,4) by simp
  then show ?thesis
    unfolding checkInvalidHeaderChar_append [of "lit ''attachment; filename=''"]
    using checkInvalidHeaderChar_literals(2) by simp
qed

text \<open>
  What \<open>start_download\<close> of src/api/download.js comes to. When the file name and the
  content length hold only code units that a header accepts, the headers are set and
  the stream is opened for the format. When the file name holds another code unit
  (the sanitising of lines 116 to 119 keeps every code unit above \<open>0xFF\<close>), setting
  \<open>Content-Disposition\<close> throws, and the \<open>catch\<close> block answers 500 behind the one
  header that was set.
\<close>

lemma start_download_accepted:
  assumes "\<not> checkInvalidHeaderChar (safeFilename (title info))"
      and "\<forall>len. contentLength format = Some len \<longrightarrow> \<not> checkInvalidHeaderChar len"
  shows "start_download info format =
           ([SetHeader (lit ''Content-Type'') (lit ''video/mp4''),
             SetHeader (lit ''Content-Disposition'')
               (lit ''attachment; filename='' @ [0x22] @ safeFilename (title info)
                  @ lit ''.mp4'' @ [0x22])]
            @ (case contentLength format of
                 None \<Rightarrow> []
               | Some len \<Rightarrow> if len \<noteq> [] then [SetHeader (lit ''Content-Length'') len] else []),
            Some format)"
  using assms
  by (simp add: start_download_def download_headers_def setHeader_def
        content_disposition_check checkInvalidHeaderChar_literals
        del: append.simps split: option.splits)

lemma catch_block_invalid_header:
  "catch_block (lit ''Invalid character in header content ['' @ [0x22]
                  @ lit ''Content-Disposition'' @ [0x22] @ lit '']'')
     = [Status 500,
        Json [(lit ''error'', lit ''Failed to process download request''),
              (lit ''details'',
               lit ''Invalid character in header content ['' @ [0x22]
                 @ lit ''Content-Disposition'' @ [0x22] @ lit '']'')]]"
  by code_simp

lemma start_download_refused_name:
  assumes "checkInvalidHeaderChar (safeFilename (title info))"
  shows "start_download info format =
           ([SetHeader (lit ''Content-Type'') (lit ''video/mp4''),
             Status 500,
             Json [(lit ''error'', lit ''Failed to process download request''),
                   (lit ''details'',
                    lit ''Invalid character in header content ['' @ [0x22]
                      @ lit ''Content-Disposition'' @ [0x22] @ lit '']'')]],
            None)"
proof -
  have "download_headers info format =
          Inl ([SetHeader (lit ''Content-Type'') (lit ''video/mp4'')],
               lit ''Invalid character in header content ['' @ [0x22]
                 @ lit ''Content-Disposition'' @ [0x22] @ lit '']'')"
    using assms
    by (simp add: download_headers_def setHeader_def content_disposition_check
          checkInvalidHeaderChar_literals del: append.simps)
  then show ?thesis
    using catch_block_invalid_header by (simp add: start_download_def)
qed

lemma validHeaderChar_isAlnum: "isAlnum c \<Longrightarrow> validHeaderChar c"
  unfolding isAlnum_def validHeaderChar_def
  by (elim disjE conjE) (auto intro: order_trans [of "0x20" "0x30" c]
        order_trans [of "0x20" "0x41" c] order_trans [of "0x20" "0x61" c]
        order_trans [of c "0x39" "0x7E"] order_trans [of c "0x5A" "0x7E"]
        order_trans [of c "0x7A" "0x7E"])

lemma safeFilename_part000_accepted: "\<not> checkInvalidHeaderChar (safeFilename_part000 video_title)"
proof -
  have u: "validHeaderChar UNDERSCORE"
    by (simp add: validHeaderChar_def UNDERSCORE_def)
  have "\<forall>c\<in>set (map (\<lambda>c. if isAlnum c then c else UNDERSCORE) video_title). validHeaderChar c"
    using u by (auto simp: validHeaderChar_isAlnum)
  then have "\<forall>c\<in>set (take 50 (map (\<lambda>c. if isAlnum c then c else UNDERSCORE) video_title)).
               validHeaderChar c"
    by (meson in_set_takeD)
  moreover have "\<not> checkInvalidHeaderChar (lit ''video'')"
    by code_simp
  ultimately show ?thesis
    by (auto simp: safeFilename_part000_def substring0_def checkInvalidHeaderChar_def
          list_ex_iff Let_def)
qed

text \<open>
  In src/unnamed/part_000 the file name holds letters, digits and underscores only,
  so the headers are set whenever the content length is accepted.
\<close>

lemma start_download_part000_accepted:
  assumes "\<forall>len. contentLength format = Some len \<longrightarrow> \<not> checkInvalidHeaderChar len"
  shows "start_download_part000 info format =
           ([SetHeader (lit ''Content-Type'') (lit ''video/mp4''),
             SetHeader (lit ''Content-Disposition'')
               (lit ''attachment; filename='' @ [0x22] @ safeFilename_part000 (title info)
                  @ lit ''.mp4'' @ [0x22]),
             SetHeader (lit ''Content-Length'')
               (case contentLength format of
                  None \<Rightarrow> lit ''unknown''
                | Some len \<Rightarrow> if len \<noteq> [] then len else lit ''unknown'')],
            Some format)"
  using assms
  by (simp add: start_download_part000_def download_headers_part000_def setHeader_def
        content_disposition_check checkInvalidHeaderChar_literals
        safeFilename_part000_accepted del: append.simps split: option.splits)

text \<open>
  Claim C1, amended. In src/api/download.js, once \<open>getInfo\<close> has returned, variant
  selection follows the two-tier fallback: when some variant has both a video and an
  audio component, one of these is selected; when none has but some variant has a
  video component, the first variant with a video component is selected; in both cases
  the handler goes on to the download with the selected variant (\<open>start_download\<close>:
  lemmas \<open>start_download_accepted\<close> and \<open>start_download_refused_name\<close>). When no variant
  has a video component, none is selected and the handler answers 400 with the error
  \<open>No downloadable format available for this video\<close>. The handler of
  src/unnamed/part_000 has one tier: it selects one of the variants whose container
  is \<open>mp4\<close> and that have both components, and when there is none it answers 400 with
  the error \<open>No MP4 format available for this video\<close>.
\<close>

theorem variant_selection_two_tier:
  assumes "getInfo_result e req = Some (Inr info)"
      and "getInfo_result_part000 e' req' = Some (Inr info')"
  shows "(filterFormats_videoandaudio (formats info) \<noteq> [] \<longrightarrow>
            (\<exists>v\<in>set (filterFormats_videoandaudio (formats info)).
                selectedFormat (formats info) = Some v
                \<and> handler e req = start_download info v))
       \<and> (filterFormats_videoandaudio (formats info) = []
            \<and> filter hasVideo (formats info) \<noteq> [] \<longrightarrow>
            selectedFormat (formats info) = Some (hd (filter hasVideo (formats info)))
            \<and> handler e req = start_download info (hd (filter hasVideo (formats info))))
       \<and> (filterFormats_videoandaudio (formats info) = []
            \<and> filter hasVideo (formats info) = [] \<longrightarrow>
            selectedFormat (formats info) = None
            \<and> handler e req =
              ([Status 400,
                Json [(lit ''error'', lit ''No downloadable format available for this video'')]],
               None))
       \<and> (mp4_formats (formats info') \<noteq> [] \<longrightarrow>
            (\<exists>v\<in>set (mp4_formats (formats info')).
                selectedFormat_part000 (formats info') = Some v
                \<and> handler_part000 e' req' = start_download_part000 info' v))
       \<and> (mp4_formats (formats info') = [] \<longrightarrow>
            selectedFormat_part000 (formats info') = None
            \<and> handler_part000 e' req' =
              ([Status 400, Json [(lit ''error'', lit ''No MP4 format available for this video'')]],
               None))"
proof (intro conjI impI)
  assume ne: "filterFormats_videoandaudio (formats info) \<noteq> []"
  then have "hd (filterFormats_videoandaudio (formats info))
               \<in> set (filterFormats_videoandaudio (formats info))"
    by simp
  moreover have "selectedFormat (formats info)
      = Some (hd (filterFormats_videoandaudio (formats info)))"
    using ne by (rule selectedFormat_combined)
  moreover have "handler e req
      = start_download info (hd (filterFormats_videoandaudio (formats info)))"
    using assms(1) ne by (simp add: handler_getInfo_returns selectedFormat_combined)
  ultimately show "\<exists>v\<in>set (filterFormats_videoandaudio (formats info)).
      selectedFormat (formats info) = Some v \<and> handler e req = start_download info v"
    by blast
next
  assume a: "filterFormats_videoandaudio (formats info) = []
             \<and> filter hasVideo (formats info) \<noteq> []"
  then show "selectedFormat (formats info) = Some (hd (filter hasVideo (formats info)))"
    by (simp add: selectedFormat_video_only)
  from a show "handler e req = start_download info (hd (filter hasVideo (formats info)))"
    using assms(1) by (simp add: handler_getInfo_returns selectedFormat_video_only)
next
  assume a: "filterFormats_videoandaudio (formats info) = []
             \<and> filter hasVideo (formats info) = []"
  then show "selectedFormat (formats info) = None"
    by (simp add: selectedFormat_none)
  from a show "handler e req =
      ([Status 400,
        Json [(lit ''error'', lit ''No downloadable format available for this video'')]],
       None)"
    using assms(1) by (simp add: handler_getInfo_returns selectedFormat_none no_format_def)
next
  assume ne: "mp4_formats (formats info') \<noteq> []"
  let ?v = "sort_key getHeight (mp4_formats (formats info')) ! 0"
  from sort_key_first [OF ne, of getHeight] have "?v \<in> set (mp4_formats (formats info'))"
    by (metis in_set_conv_decomp)
  moreover have s: "selectedFormat_part000 (formats info') = Some ?v"
    using ne by (simp add: selectedFormat_part000_def)
  moreover have "handler_part000 e' req' = start_download_part000 info' ?v"
    using assms(2) s by (simp add: handler_part000_getInfo_returns)
  ultimately show "\<exists>v\<in>set (mp4_formats (formats info')).
      selectedFormat_part000 (formats info') = Some v
      \<and> handler_part000 e' req' = start_download_part000 info' v"
    by blast
next
  assume a: "mp4_formats (formats info') = []"
  then show "selectedFormat_part000 (formats info') = None"
    by (simp add: selectedFormat_part000_none)
  from a show "handler_part000 e' req' =
      ([Status 400, Json [(lit ''error'', lit ''No MP4 format available for this video'')]], None)"
    using assms(2)
    by (simp add: handler_part000_getInfo_returns selectedFormat_part000_none no_format_part000_def)
qed

theorem variant_selection_two_tier_witness:
  "getInfo_result (example_env (Inr (example_info [example_format 18 ''mp4'' True True 360])))
       example_request
     = Some (Inr (example_info [example_format 18 ''mp4'' True True 360]))
   \<and> getInfo_result_part000
         (example_env (Inr (example_info [example_format 18 ''mp4'' True True 360])))
         example_request
     = Some (Inr (example_info [example_format 18 ''mp4'' True True 360]))
   \<and> handler (example_env (Inr (example_info [example_format 18 ''mp4'' True True 360])))
         example_request
     = ([SetHeader (lit ''Content-Type'') (lit ''video/mp4''),
         SetHeader (lit ''Content-Disposition'')
           (lit ''attachment; filename='' @ [0x22] @ lit ''clip.mp4'' @ [0x22])],
        Some (example_format 18 ''mp4'' True True 360))
   \<and> handler_part000 (example_env (Inr (example_info [example_format 18 ''mp4'' True True 360])))
         example_request
     = ([SetHeader (lit ''Content-Type'') (lit ''video/mp4''),
         SetHeader (lit ''Content-Disposition'')
           (lit ''attachment; filename='' @ [0x22] @ lit ''clip.mp4'' @ [0x22]),
         SetHeader (lit ''Content-Length'') (lit ''unknown'')],
        Some (example_format 18 ''mp4'' True True 360))
   \<and> handler (example_env (Inr (example_info [example_format 140 ''mp4'' False True 0,
                                                  example_format 137 ''mp4'' True False 1080])))
         example_request
     = ([SetHeader (lit ''Content-Type'') (lit ''video/mp4''),
         SetHeader (lit ''Content-Disposition'')
           (lit ''attachment; filename='' @ [0x22] @ lit ''clip.mp4'' @ [0x22])],
        Some (example_format 137 ''mp4'' True False 1080))
   \<and> handler (example_env (Inr (example_info [example_format 140 ''mp4'' False True 0])))
         example_request
     = ([Status 400,
         Json [(lit ''error'', lit ''No downloadable format available for this video'')]],
        None)
   \<and> handler (example_env (Inr (example_titled_info [0x3042, 0x3044]
                                   [example_format 18 ''mp4'' True True 360])))
         example_request
     = ([SetHeader (lit ''Content-Type'') (lit ''video/mp4''),
         Status 500,
         Json [(lit ''error'', lit ''Failed to process download request''),
               (lit ''details'',
                lit ''Invalid character in header content ['' @ [0x22]
                  @ lit ''Content-Disposition'' @ [0x22] @ lit '']'')]],
        None)"
proof -
  let ?f = "example_format 18 ''mp4'' True True 360"
  let ?a = "example_info [?f]"
  let ?b = "example_info [example_format 140 ''mp4'' False True 0,
                          example_format 137 ''mp4'' True False 1080]"
  let ?c = "example_info [example_format 140 ''mp4'' False True 0]"
  let ?d = "example_titled_info [0x3042, 0x3044] [?f]"
  have fa: "filterFormats_videoandaudio (formats ?a) = [?f]"
    by code_simp
  have ma: "mp4_formats (formats ?a) = [?f]"
    by code_simp
  have fb: "filterFormats_videoandaudio (formats ?b) = []"
    by code_simp
  have vb: "filter hasVideo (formats ?b) = [example_format 137 ''mp4'' True False 1080]"
    by code_simp
  have fc: "filterFormats_videoandaudio (formats ?c) = []"
    by code_simp
  have vc: "filter hasVideo (formats ?c) = []"
    by code_simp
  have fd: "filterFormats_videoandaudio (formats ?d) = [?f]"
    by code_simp
  have sa: "start_download ?a ?f =
      ([SetHeader (lit ''Content-Type'') (lit ''video/mp4''),
        SetHeader (lit ''Content-Disposition'')
          (lit ''attachment; filename='' @ [0x22] @ lit ''clip.mp4'' @ [0x22])],
       Some ?f)"
    by code_simp
  have pa: "start_download_part000 ?a ?f =
      ([SetHeader (lit ''Content-Type'') (lit ''video/mp4''),
        SetHeader (lit ''Content-Disposition'')
          (lit ''attachment; filename='' @ [0x22] @ lit ''clip.mp4'' @ [0x22]),
        SetHeader (lit ''Content-Length'') (lit ''unknown'')],
       Some ?f)"
    by code_simp
  have sb: "start_download ?b (example_format 137 ''mp4'' True False 1080) =
      ([SetHeader (lit ''Content-Type'') (lit ''video/mp4''),
        SetHeader (lit ''Content-Disposition'')
          (lit ''attachment; filename='' @ [0x22] @ lit ''clip.mp4'' @ [0x22])],
       Some (example_format 137 ''mp4'' True False 1080))"
    by code_simp
  have sd: "start_download ?d ?f =
      ([SetHeader (lit ''Content-Type'') (lit ''video/mp4''),
        Status 500,
        Json [(lit ''error'', lit ''Failed to process download request''),
              (lit ''details'',
               lit ''Invalid character in header content ['' @ [0x22]
                 @ lit ''Content-Disposition'' @ [0x22] @ lit '']'')]],
       None)"
    by code_simp
  show ?thesis
    using variant_selection_two_tier
            [OF example_getInfo_result example_getInfo_result_part000, of ?a ?a]
          variant_selection_two_tier
            [OF example_getInfo_result example_getInfo_result_part000, of ?b ?a]
          variant_selection_two_tier
            [OF example_getInfo_result example_getInfo_result_part000, of ?c ?a]
          variant_selection_two_tier
            [OF example_getInfo_result example_getInfo_result_part000, of ?d ?a]
    by (simp add: fa ma fb vb fc vc fd sa pa sb sd
          example_getInfo_result example_getInfo_result_part000)
qed

text \<open>
  Claim C1 as it is stated fails in src/unnamed/part_000: the only variant below has
  a video component and no audio component, so the fallback of the claim would pick
  it, and the handler answers 400.
\<close>

theorem variant_selection_part000_no_fallback:
  "filterFormats_videoandaudio [example_format 137 ''mp4'' True False 1080] = []
   \<and> filter hasVideo [example_format 137 ''mp4'' True False 1080]
       = [example_format 137 ''mp4'' True False 1080]
   \<and> handler_part000
         (example_env (Inr (example_info [example_format 137 ''mp4'' True False 1080])))
         example_request
     = ([Status 400, Json [(lit ''error'', lit ''No MP4 format available for this video'')]], None)"
  by code_simp

text \<open>
  Claim C2, amended. For every variant list that contains at least one variant whose
  container is \<open>mp4\<close> and that has both a video and an audio component, the handler of
  src/unnamed/part_000 selects, as a function of the list alone, such a variant of
  least height (an undefined height counts as 0), and among those of least height the
  first of the list: every such variant before it is strictly higher, and none after
  it is lower.
\<close>

theorem part000_selects_lowest_mp4:
  assumes "\<exists>f\<in>set fs. container f = lit ''mp4'' \<and> hasVideo f \<and> hasAudio f"
  shows "\<exists>v pre post. selectedFormat_part000 fs = Some v \<and> fs = pre @ v # post
      \<and> container v = lit ''mp4'' \<and> hasVideo v \<and> hasAudio v
      \<and> (\<forall>c\<in>set pre. container c = lit ''mp4'' \<and> hasVideo c \<and> hasAudio c
             \<longrightarrow> getHeight v < getHeight c)
      \<and> (\<forall>c\<in>set post. container c = lit ''mp4'' \<and> hasVideo c \<and> hasAudio c
             \<longrightarrow> getHeight v \<le> getHeight c)"
proof -
  let ?P = "\<lambda>format. container format = lit ''mp4'' \<and> hasVideo format \<and> hasAudio format"
  let ?v = "sort_key getHeight (mp4_formats fs) ! 0"
  have ne: "mp4_formats fs \<noteq> []"
    using assms by (auto simp: mp4_formats_def filter_empty_conv)
  then have sel: "selectedFormat_part000 fs = Some ?v"
    by (simp add: selectedFormat_part000_def)
  from sort_key_first [OF ne, of getHeight] obtain pre' post' where
    d: "mp4_formats fs = pre' @ ?v # post'" and
    lt: "\<forall>c\<in>set pre'. getHeight ?v < getHeight c" and
    le: "\<forall>c\<in>set post'. getHeight ?v \<le> getHeight c"
    by blast
  from d have "filter ?P fs = pre' @ ?v # post'" by (simp add: mp4_formats_def)
  from filter_eq_append_Cons [OF this] obtain pre post where
    f: "fs = pre @ ?v # post" and p1: "filter ?P pre = pre'" and p2: "filter ?P post = post'"
    and pv: "?P ?v"
    by blast
  have "\<forall>c\<in>set pre. ?P c \<longrightarrow> getHeight ?v < getHeight c"
    using lt p1 by auto
  moreover have "\<forall>c\<in>set post. ?P c \<longrightarrow> getHeight ?v \<le> getHeight c"
    using le p2 by auto
  ultimately show ?thesis using sel f pv by blast
qed

theorem part000_selects_lowest_mp4_witness:
  "container (example_format 22 ''mp4'' True True 720) = lit ''mp4''
   \<and> hasVideo (example_format 22 ''mp4'' True True 720)
   \<and> hasAudio (example_format 22 ''mp4'' True True 720)
   \<and> selectedFormat_part000
         [example_format 22 ''mp4'' True True 720, example_format 18 ''mp4'' True True 360,
          example_format 160 ''mp4'' True False 144, example_format 19 ''mp4'' True True 360]
       = Some (example_format 18 ''mp4'' True True 360)
   \<and> (\<exists>v pre post.
         selectedFormat_part000
           [example_format 22 ''mp4'' True True 720, example_format 18 ''mp4'' True True 360,
            example_format 160 ''mp4'' True False 144, example_format 19 ''mp4'' True True 360]
           = Some v
         \<and> [example_format 22 ''mp4'' True True 720, example_format 18 ''mp4'' True True 360,
            example_format 160 ''mp4'' True False 144, example_format 19 ''mp4'' True True 360]
           = pre @ v # post
         \<and> (\<forall>c\<in>set pre. container c = lit ''mp4'' \<and> hasVideo c \<and> hasAudio c
                \<longrightarrow> getHeight v < getHeight c)
         \<and> (\<forall>c\<in>set post. container c = lit ''mp4'' \<and> hasVideo c \<and> hasAudio c
                \<longrightarrow> getHeight v \<le> getHeight c))"
proof -
  let ?fs = "[example_format 22 ''mp4'' True True 720, example_format 18 ''mp4'' True True 360,
              example_format 160 ''mp4'' True False 144, example_format 19 ''mp4'' True True 360]"
  have c: "container (example_format 22 ''mp4'' True True 720) = lit ''mp4''
           \<and> hasVideo (example_format 22 ''mp4'' True True 720)
           \<and> hasAudio (example_format 22 ''mp4'' True True 720)"
    by (simp add: example_format_def)
  then have h: "\<exists>f\<in>set ?fs. container f = lit ''mp4'' \<and> hasVideo f \<and> hasAudio f"
    by simp
  have s: "selectedFormat_part000 ?fs = Some (example_format 18 ''mp4'' True True 360)"
    by code_simp
  from part000_selects_lowest_mp4 [OF h] have
    "\<exists>v pre post. selectedFormat_part000 ?fs = Some v \<and> ?fs = pre @ v # post
       \<and> (\<forall>c\<in>set pre. container c = lit ''mp4'' \<and> hasVideo c \<and> hasAudio c
              \<longrightarrow> getHeight v < getHeight c)
       \<and> (\<forall>c\<in>set post. container c = lit ''mp4'' \<and> hasVideo c \<and> hasAudio c
              \<longrightarrow> getHeight v \<le> getHeight c)"
    by blast
  with c s show ?thesis by blast
qed

text \<open>
  Claim C2 as it is stated fails in both handlers. In src/unnamed/part_000 a variant
  with both components and a lower height is passed over when its container is not
  \<open>mp4\<close>. In src/api/download.js the first variant with both components is taken,
  whatever its height.
\<close>

theorem lowest_combined_variant_not_selected:
  "selectedFormat_part000
       [example_format 278 ''webm'' True True 144, example_format 18 ''mp4'' True True 360]
     = Some (example_format 18 ''mp4'' True True 360)
   \<and> hasVideo (example_format 278 ''webm'' True True 144)
   \<and> hasAudio (example_format 278 ''webm'' True True 144)
   \<and> getHeight (example_format 278 ''webm'' True True 144)
       < getHeight (example_format 18 ''mp4'' True True 360)
   \<and> selectedFormat
       [example_format 22 ''mp4'' True True 720, example_format 18 ''mp4'' True True 360]
     = Some (example_format 22 ''mp4'' True True 720)
   \<and> hasVideo (example_format 18 ''mp4'' True True 360)
   \<and> hasAudio (example_format 18 ''mp4'' True True 360)
   \<and> getHeight (example_format 18 ''mp4'' True True 360)
       < getHeight (example_format 22 ''mp4'' True True 720)"
  by code_simp

section \<open>Responses\<close>

lemma headersSent_append: "headersSent (r @ r') \<longleftrightarrow> headersSent r \<or> headersSent r'"
  by (simp add: headersSent_def)

lemma download_headers_Inr:
  "download_headers info format = Inr r \<Longrightarrow>
   r = [SetHeader (lit ''Content-Type'') (lit ''video/mp4''),
        SetHeader (lit ''Content-Disposition'')
          (lit ''attachment; filename='' @ [0x22] @ safeFilename (title info)
             @ lit ''.mp4'' @ [0x22])]
       @ (case contentLength format of
            None \<Rightarrow> []
          | Some len \<Rightarrow> if len \<noteq> [] then [SetHeader (lit ''Content-Length'') len] else [])"
  by (auto simp: download_headers_def setHeader_def split: if_splits option.splits)

lemma download_headers_part000_Inr:
  "download_headers_part000 info format = Inr r \<Longrightarrow>
   r = [SetHeader (lit ''Content-Type'') (lit ''video/mp4''),
        SetHeader (lit ''Content-Disposition'')
          (lit ''attachment; filename='' @ [0x22] @ safeFilename_part000 (title info)
             @ lit ''.mp4'' @ [0x22]),
        SetHeader (lit ''Content-Length'')
          (case contentLength format of
             None \<Rightarrow> lit ''unknown''
           | Some len \<Rightarrow> if len \<noteq> [] then len else lit ''unknown'')]"
  by (auto simp: download_headers_part000_def setHeader_def split: if_splits option.splits)

lemma download_headers_Inl:
  "download_headers info format = Inl (r, message) \<Longrightarrow>
   r = [] \<or> r = [SetHeader (lit ''Content-Type'') (lit ''video/mp4'')]
   \<or> r = [SetHeader (lit ''Content-Type'') (lit ''video/mp4''),
           SetHeader (lit ''Content-Disposition'')
             (lit ''attachment; filename='' @ [0x22] @ safeFilename (title info)
                @ lit ''.mp4'' @ [0x22])]"
  by (auto simp: download_headers_def setHeader_def split: if_splits option.splits)

lemma download_headers_part000_Inl:
  "download_headers_part000 info format = Inl (r, message) \<Longrightarrow>
   r = [] \<or> r = [SetHeader (lit ''Content-Type'') (lit ''video/mp4'')]
   \<or> r = [SetHeader (lit ''Content-Type'') (lit ''video/mp4''),
           SetHeader (lit ''Content-Disposition'')
             (lit ''attachment; filename='' @ [0x22] @ safeFilename_part000 (title info)
                @ lit ''.mp4'' @ [0x22])]"
  by (auto simp: download_headers_part000_def setHeader_def split: if_splits option.splits)

lemma handler_streams:
  "handler e req = (r, Some format) \<Longrightarrow> \<exists>info::videoInfo. download_headers info format = Inr r"
  by (auto simp: handler_def start_download_def split: if_splits option.splits sum.splits)

lemma handler_part000_streams:
  "handler_part000 e req = (r, Some format) \<Longrightarrow>
   \<exists>info::videoInfo. download_headers_part000 info format = Inr r"
  by (auto simp: handler_part000_def start_download_part000_def
           split: if_splits option.splits sum.splits)

lemma on_event_extends: "\<exists>rest. res (on_event s ev) = res s @ rest"
  by (cases ev) auto

lemma foldl_on_event_extends: "\<exists>rest. res (foldl on_event s events) = res s @ rest"
proof (induction events arbitrary: s)
  case Nil
  then show ?case by simp
next
  case (Cons ev events)
  obtain r1 where 1: "res (on_event s ev) = res s @ r1"
    using on_event_extends by blast
  from Cons [of "on_event s ev"] obtain r2 where
    "res (foldl on_event (on_event s ev) events) = res (on_event s ev) @ r2"
    by blast
  with 1 have "res (foldl on_event s (ev # events)) = res s @ (r1 @ r2)" by simp
  then show ?case by blast
qed

lemma on_event_part000_extends: "\<exists>rest. res (on_event_part000 s ev) = res s @ rest"
  by (cases ev) auto

lemma foldl_on_event_part000_extends:
  "\<exists>rest. res (foldl on_event_part000 s events) = res s @ rest"
proof (induction events arbitrary: s)
  case Nil
  then show ?case by simp
next
  case (Cons ev events)
  obtain r1 where 1: "res (on_event_part000 s ev) = res s @ r1"
    using on_event_part000_extends by blast
  from Cons [of "on_event_part000 s ev"] obtain r2 where
    "res (foldl on_event_part000 (on_event_part000 s ev) events)
       = res (on_event_part000 s ev) @ r2"
    by blast
  with 1 have "res (foldl on_event_part000 s (ev # events)) = res s @ (r1 @ r2)" by simp
  then show ?case by blast
qed

text \<open>
  When src/api/download.js opens the stream, the response at that moment consists of
  the \<open>Content-Type\<close> and \<open>Content-Disposition\<close> headers, followed by \<open>Content-Length\<close>
  exactly when the selected format has a non-empty content length; nothing has been
  sent yet, and everything written later comes behind these calls.
\<close>

lemma download_js_headers_before_body:
  assumes "handler e req = (r, Some format)"
  shows "\<exists>info::videoInfo. r =
           [SetHeader (lit ''Content-Type'') (lit ''video/mp4''),
            SetHeader (lit ''Content-Disposition'')
              (lit ''attachment; filename='' @ [0x22] @ safeFilename (title info)
                 @ lit ''.mp4'' @ [0x22])]
           @ (case contentLength format of
                None \<Rightarrow> []
              | Some len \<Rightarrow> if len \<noteq> [] then [SetHeader (lit ''Content-Length'') len] else [])"
    and "\<not> headersSent r"
    and "\<exists>rest. serve e req events = r @ rest"
proof -
  from handler_streams [OF assms] obtain info :: videoInfo where
    "download_headers info format = Inr r"
    by blast
  from download_headers_Inr [OF this] have r: "r =
           [SetHeader (lit ''Content-Type'') (lit ''video/mp4''),
            SetHeader (lit ''Content-Disposition'')
              (lit ''attachment; filename='' @ [0x22] @ safeFilename (title info)
                 @ lit ''.mp4'' @ [0x22])]
           @ (case contentLength format of
                None \<Rightarrow> []
              | Some len \<Rightarrow> if len \<noteq> [] then [SetHeader (lit ''Content-Length'') len] else [])"
    .
  show "\<exists>info::videoInfo. r =
           [SetHeader (lit ''Content-Type'') (lit ''video/mp4''),
            SetHeader (lit ''Content-Disposition'')
              (lit ''attachment; filename='' @ [0x22] @ safeFilename (title info)
                 @ lit ''.mp4'' @ [0x22])]
           @ (case contentLength format of
                None \<Rightarrow> []
              | Some len \<Rightarrow> if len \<noteq> [] then [SetHeader (lit ''Content-Length'') len] else [])"
    by (rule exI [of _ info]) (rule r)
  from r show "\<not> headersSent r"
    by (simp add: headersSent_def split: option.splits)
  from foldl_on_event_extends [of "\<lparr>res = r, destroyed = False\<rparr>" events]
  show "\<exists>rest. serve e req events = r @ rest"
    using assms by (simp add: serve_def stream_events_def)
qed

text \<open>
  When src/unnamed/part_000 opens the stream, the three headers are set, nothing has
  been sent, and everything written later comes behind them.
\<close>

lemma part000_headers_before_body:
  assumes "handler_part000 e req = (r, Some format)"
  shows "\<exists>info::videoInfo. r =
           [SetHeader (lit ''Content-Type'') (lit ''video/mp4''),
            SetHeader (lit ''Content-Disposition'')
              (lit ''attachment; filename='' @ [0x22] @ safeFilename_part000 (title info)
                 @ lit ''.mp4'' @ [0x22]),
            SetHeader (lit ''Content-Length'')
              (case contentLength format of
                 None \<Rightarrow> lit ''unknown''
               | Some len \<Rightarrow> if len \<noteq> [] then len else lit ''unknown'')]"
    and "\<not> headersSent r"
    and "\<exists>rest. serve_part000 e req events = r @ rest"
proof -
  from handler_part000_streams [OF assms] obtain info :: videoInfo where
    "download_headers_part000 info format = Inr r"
    by blast
  from download_headers_part000_Inr [OF this] have r: "r =
           [SetHeader (lit ''Content-Type'') (lit ''video/mp4''),
            SetHeader (lit ''Content-Disposition'')
              (lit ''attachment; filename='' @ [0x22] @ safeFilename_part000 (title info)
                 @ lit ''.mp4'' @ [0x22]),
            SetHeader (lit ''Content-Length'')
              (case contentLength format of
                 None \<Rightarrow> lit ''unknown''
               | Some len \<Rightarrow> if len \<noteq> [] then len else lit ''unknown'')]"
    .
  show "\<exists>info::videoInfo. r =
           [SetHeader (lit ''Content-Type'') (lit ''video/mp4''),
            SetHeader (lit ''Content-Disposition'')
              (lit ''attachment; filename='' @ [0x22] @ safeFilename_part000 (title info)
                 @ lit ''.mp4'' @ [0x22]),
            SetHeader (lit ''Content-Length'')
              (case contentLength format of
                 None \<Rightarrow> lit ''unknown''
               | Some len \<Rightarrow> if len \<noteq> [] then len else lit ''unknown'')]"
    by (rule exI [of _ info]) (rule r)
  from r show "\<not> headersSent r"
    by (simp add: headersSent_def)
  from foldl_on_event_part000_extends [of "\<lparr>res = r, destroyed = False\<rparr>" events]
  show "\<exists>rest. serve_part000 e req events = r @ rest"
    using assms by (simp add: serve_part000_def stream_events_part000_def)
qed

text \<open>
  Claim C6. On the success path both handlers set \<open>Content-Type\<close> and
  \<open>Content-Disposition\<close> before anything is written, and src/api/download.js sets
  \<open>Content-Length\<close> only when the content length of the selected format is known
  (lemmas \<open>download_js_headers_before_body\<close> and \<open>part000_headers_before_body\<close>).
  The handler of src/unnamed/part_000 sets
  \<open>Content-Length\<close> always: for the format below, whose content length is undefined,
  it sets the header to the text \<open>unknown\<close>.
\<close>

theorem part000_content_length_unknown:
  "contentLength (example_format 18 ''mp4'' True True 360) = None
   \<and> handler_part000 (example_env (Inr (example_info [example_format 18 ''mp4'' True True 360])))
         example_request
     = ([SetHeader (lit ''Content-Type'') (lit ''video/mp4''),
         SetHeader (lit ''Content-Disposition'')
           (lit ''attachment; filename='' @ [0x22] @ lit ''clip.mp4'' @ [0x22]),
         SetHeader (lit ''Content-Length'') (lit ''unknown'')],
        Some (example_format 18 ''mp4'' True True 360))
   \<and> handler (example_env (Inr (example_info [example_format 18 ''mp4'' True True 360])))
         example_request
     = ([SetHeader (lit ''Content-Type'') (lit ''video/mp4''),
         SetHeader (lit ''Content-Disposition'')
           (lit ''attachment; filename='' @ [0x22] @ lit ''clip.mp4'' @ [0x22])],
        Some (example_format 18 ''mp4'' True True 360))"
  by code_simp

section \<open>Errors\<close>

text \<open>
  The generic branch of the \<open>catch\<close> block of src/api/download.js sends at most
  100 code units of the message.
\<close>

lemma download_js_generic_details_capped:
  assumes "\<not> includes_str message (lit ''private'')"
      and "\<not> includes_str message (lit ''unavailable'')"
      and "\<not> includes_str message (lit ''cookies'')"
      and "\<not> includes_str message (lit ''authentication'')"
      and "\<not> includes_str message (lit ''format'')"
  shows "catch_block message =
           [Status 500,
            Json [(lit ''error'', lit ''Failed to process download request''),
                  (lit ''details'', take 100 message)]]"
    and "length (take 100 message) \<le> 100"
  using assms by (simp_all add: catch_block_def substring0_def)

text \<open>
  Claim C7. The generic 500 answer of src/api/download.js truncates the detail string
  to 100 code units (lemma \<open>download_js_generic_details_capped\<close>), and the comment on
  that line says that the length of error details is limited. The other answers that
  carry a detail string send it whole: the 400 answer of src/api/download.js for a
  message that contains \<open>format\<close>, its 500 answer for a stream error, and the 500
  answer of src/unnamed/part_000. The two messages below have 126 and 129 code units.
\<close>

theorem error_details_not_truncated:
  "handler (example_env (Inl example_format_error)) example_request
     = ([Status 400,
         Json [(lit ''error'', lit ''No supported format available''),
               (lit ''details'', example_format_error)]],
        None)
   \<and> length example_format_error = 126
   \<and> res (on_event \<lparr>res = [], destroyed = False\<rparr> (StreamError example_generic_error))
     = [Status 500,
        Json [(lit ''error'', lit ''Stream failed''), (lit ''details'', example_generic_error)]]
   \<and> handler_part000 (example_env (Inl example_generic_error)) example_request
     = ([Status 500,
         Json [(lit ''error'', lit ''Failed to process download request''),
               (lit ''details'', example_generic_error)]],
        None)
   \<and> length example_generic_error = 129
   \<and> handler (example_env (Inl example_generic_error)) example_request
     = ([Status 500,
         Json [(lit ''error'', lit ''Failed to process download request''),
               (lit ''details'', take 100 example_generic_error)]],
        None)"
  by code_simp

text \<open>
  Claim C10. In both handlers the answer to a caught error is a function of the text
  of its message: when the message contains \<open>private\<close> or \<open>unavailable\<close> the answer is
  403, whatever else the message contains, and so the test comes before the generic
  500 answer. In particular this is the answer when \<open>getInfo\<close> throws such an error.
\<close>

theorem private_or_unavailable_is_403:
  assumes "includes_str message (lit ''private'') \<or> includes_str message (lit ''unavailable'')"
  shows "catch_block message
           = [Status 403,
              Json [(lit ''error'', lit ''Video is private or unavailable''),
                    (lit ''note'', lit ''If testing private videos, ensure cookies.txt contains valid authentication cookies'')]]
       \<and> catch_block_part000 message
           = [Status 403,
              Json [(lit ''error'', lit ''Video unavailable. This might require authentication.'')]]
       \<and> (getInfo_result e req = Some (Inl message) \<longrightarrow>
            handler e req = (catch_block message, None))
       \<and> (getInfo_result_part000 e req = Some (Inl message) \<longrightarrow>
            handler_part000 e req = (catch_block_part000 message, None))"
  using assms
  by (simp add: catch_block_def catch_block_part000_def handler_getInfo_throws
        handler_part000_getInfo_throws)

theorem private_or_unavailable_is_403_witness:
  "includes_str example_private_error (lit ''private'')
   \<and> includes_str example_private_error (lit ''format'')
   \<and> getInfo_result (example_env (Inl example_private_error)) example_request
       = Some (Inl example_private_error)
   \<and> getInfo_result_part000 (example_env (Inl example_private_error)) example_request
       = Some (Inl example_private_error)
   \<and> handler (example_env (Inl example_private_error)) example_request
       = ([Status 403,
           Json [(lit ''error'', lit ''Video is private or unavailable''),
                 (lit ''note'', lit ''If testing private videos, ensure cookies.txt contains valid authentication cookies'')]],
          None)
   \<and> handler_part000 (example_env (Inl example_private_error)) example_request
       = ([Status 403,
           Json [(lit ''error'', lit ''Video unavailable. This might require authentication.'')]],
          None)"
proof -
  have h: "includes_str example_private_error (lit ''private'')"
    by code_simp
  have f: "includes_str example_private_error (lit ''format'')"
    by code_simp
  from h have
    "includes_str example_private_error (lit ''private'')
     \<or> includes_str example_private_error (lit ''unavailable'')"
    by simp
  from private_or_unavailable_is_403
         [OF this, of "example_env (Inl example_private_error)" example_request]
  show ?thesis
    using h f by (simp add: example_getInfo_result example_getInfo_result_part000)
qed

section \<open>Errors of the byte stream\<close>

lemma json_before_commit_append:
  "json_before_commit sent (r @ r') \<longleftrightarrow>
     json_before_commit sent r \<and> json_before_commit (sent \<or> headersSent r) r'"
  by (induction r arbitrary: sent) (auto simp: headersSent_def)

lemma json_before_commit_split:
  "json_before_commit False (pre @ Json p # post) \<Longrightarrow> \<not> headersSent pre"
  by (simp add: json_before_commit_append)

lemma on_event_json_before_commit:
  "json_before_commit False (res s) \<Longrightarrow> json_before_commit False (res (on_event s ev))"
  by (cases ev) (auto simp: json_before_commit_append)

lemma on_event_part000_json_before_commit:
  "json_before_commit False (res s) \<Longrightarrow> json_before_commit False (res (on_event_part000 s ev))"
  by (cases ev) (auto simp: json_before_commit_append)

lemma foldl_on_event_json_before_commit:
  "json_before_commit False (res s) \<Longrightarrow>
   json_before_commit False (res (foldl on_event s events))"
  by (induction events arbitrary: s) (simp_all add: on_event_json_before_commit)

lemma foldl_on_event_part000_json_before_commit:
  "json_before_commit False (res s) \<Longrightarrow>
   json_before_commit False (res (foldl on_event_part000 s events))"
  by (induction events arbitrary: s) (simp_all add: on_event_part000_json_before_commit)

lemma catch_block_json_before_commit: "json_before_commit False (catch_block message)"
  by (simp add: catch_block_def)

lemma catch_block_part000_json_before_commit:
  "json_before_commit False (catch_block_part000 message)"
  by (simp add: catch_block_part000_def)

lemma start_download_json_before_commit:
  "json_before_commit False (fst (start_download info format))"
proof (cases "download_headers info format")
  case (Inl failure)
  obtain r message where f: "failure = (r, message)" by (cases failure)
  with Inl have "download_headers info format = Inl (r, message)" by simp
  from download_headers_Inl [OF this]
  have "json_before_commit False r \<and> \<not> headersSent r"
    by (auto simp: headersSent_def)
  then show ?thesis
    using Inl f
    by (simp add: start_download_def json_before_commit_append catch_block_json_before_commit)
next
  case (Inr r)
  from download_headers_Inr [OF this] have "json_before_commit False r"
    by (simp split: option.splits)
  then show ?thesis using Inr by (simp add: start_download_def)
qed

lemma start_download_part000_json_before_commit:
  "json_before_commit False (fst (start_download_part000 info format))"
proof (cases "download_headers_part000 info format")
  case (Inl failure)
  obtain r message where f: "failure = (r, message)" by (cases failure)
  with Inl have "download_headers_part000 info format = Inl (r, message)" by simp
  from download_headers_part000_Inl [OF this]
  have "json_before_commit False r \<and> \<not> headersSent r"
    by (auto simp: headersSent_def)
  then show ?thesis
    using Inl f
    by (simp add: start_download_part000_def json_before_commit_append
          catch_block_part000_json_before_commit)
next
  case (Inr r)
  from download_headers_part000_Inr [OF this] have "json_before_commit False r"
    by simp
  then show ?thesis using Inr by (simp add: start_download_part000_def)
qed

lemma handler_json_before_commit: "json_before_commit False (fst (handler e req))"
  by (simp add: handler_def missing_url_def invalid_url_def no_format_def
        catch_block_json_before_commit start_download_json_before_commit
        split: option.splits sum.splits)

lemma handler_part000_json_before_commit:
  "json_before_commit False (fst (handler_part000 e req))"
  by (simp add: handler_part000_def missing_url_part000_def invalid_url_part000_def
        no_format_part000_def catch_block_part000_json_before_commit
        start_download_part000_json_before_commit
        split: option.splits sum.splits)

lemma serve_json_before_commit: "json_before_commit False (serve e req events)"
proof (cases "handler e req")
  case (Pair r stream)
  with handler_json_before_commit [of e req] have r: "json_before_commit False r" by simp
  show ?thesis
  proof (cases stream)
    case None
    with Pair r show ?thesis by (simp add: serve_def)
  next
    case (Some format)
    with Pair r show ?thesis
      by (simp add: serve_def stream_events_def foldl_on_event_json_before_commit)
  qed
qed

lemma serve_part000_json_before_commit: "json_before_commit False (serve_part000 e req events)"
proof (cases "handler_part000 e req")
  case (Pair r stream)
  with handler_part000_json_before_commit [of e req] have r: "json_before_commit False r"
    by simp
  show ?thesis
  proof (cases stream)
    case None
    with Pair r show ?thesis by (simp add: serve_part000_def)
  next
    case (Some format)
    with Pair r show ?thesis
      by (simp add: serve_part000_def stream_events_part000_def
            foldl_on_event_part000_json_before_commit)
  qed
qed

subsection \<open>The flag of the destroyed stream\<close>

text \<open>
  In src/api/download.js no event sets the flag: the request has closed before the
  \<open>close\<close> listener is attached. In src/unnamed/part_000 the flag is set by the close
  of the connection and by nothing else, and once it is set no event changes anything.
\<close>

lemma on_event_destroyed: "destroyed (on_event s ev) = destroyed s"
  by (cases ev) (simp_all add: request_closed_early_def listeners_before_getInfo_def)

lemma foldl_on_event_destroyed: "destroyed (foldl on_event s events) = destroyed s"
  by (induction events arbitrary: s) (simp_all add: on_event_destroyed)

lemma on_event_part000_when_destroyed: "destroyed s \<Longrightarrow> on_event_part000 s ev = s"
  by (cases ev) simp_all

lemma foldl_on_event_part000_when_destroyed:
  "destroyed s \<Longrightarrow> foldl on_event_part000 s events = s"
  by (induction events) (simp_all add: on_event_part000_when_destroyed)

lemma on_event_part000_destroyed:
  "destroyed (on_event_part000 s ev) \<longleftrightarrow> destroyed s \<or> ev = ClientClose"
  by (cases ev)
     (simp_all add: request_closed_early_def listeners_before_getInfo_part000_def)

lemma foldl_on_event_part000_destroyed:
  "destroyed (foldl on_event_part000 s events) \<longleftrightarrow> destroyed s \<or> ClientClose \<in> set events"
  by (induction events arbitrary: s) (auto simp: on_event_part000_destroyed)

text \<open>
  In src/unnamed/part_000, when the connection of the client closes the stream is
  destroyed, the response is left as it is (no error answer is sent), and whatever
  happens afterwards nothing more is written.
\<close>

lemma part000_close_releases_stream:
  "destroyed (on_event_part000 s ClientClose)"
  "res (on_event_part000 s ClientClose) = res s"
  "foldl on_event_part000 (on_event_part000 s ClientClose) events = on_event_part000 s ClientClose"
proof -
  show d: "destroyed (on_event_part000 s ClientClose)"
    by (simp add: request_closed_early_def listeners_before_getInfo_part000_def)
  show "res (on_event_part000 s ClientClose) = res s"
    by (simp add: request_closed_early_def listeners_before_getInfo_part000_def)
  show "foldl on_event_part000 (on_event_part000 s ClientClose) events
          = on_event_part000 s ClientClose"
    using d by (rule foldl_on_event_part000_when_destroyed)
qed

subsection \<open>Claim C8\<close>

lemma stream_events_snoc:
  "stream_events r (events @ [ev]) = on_event (stream_events r events) ev"
  by (simp add: stream_events_def)

lemma stream_events_part000_snoc:
  "stream_events_part000 r (events @ [ev]) = on_event_part000 (stream_events_part000 r events) ev"
  by (simp add: stream_events_part000_def)

lemma serve_streaming:
  "snd (handler e req) \<noteq> None \<Longrightarrow>
   serve e req events = res (stream_events (fst (handler e req)) events)"
  by (cases "handler e req") (auto simp: serve_def)

lemma serve_not_streaming:
  "snd (handler e req) = None \<Longrightarrow> serve e req events = fst (handler e req)"
  by (cases "handler e req") (auto simp: serve_def)

lemma serve_part000_streaming:
  "snd (handler_part000 e req) \<noteq> None \<Longrightarrow>
   serve_part000 e req events = res (stream_events_part000 (fst (handler_part000 e req)) events)"
  by (cases "handler_part000 e req") (auto simp: serve_part000_def)

lemma serve_part000_not_streaming:
  "snd (handler_part000 e req) = None \<Longrightarrow>
   serve_part000 e req events = fst (handler_part000 e req)"
  by (cases "handler_part000 e req") (auto simp: serve_part000_def)

text \<open>
  Claim C8, amended. In both handlers no JSON payload is sent after the headers of the
  response have been sent: wherever a \<open>Json\<close> call stands in the response of a
  request, under any sequence of events, nothing before it has sent the headers. An
  error of the byte stream appends the 500 JSON answer when the headers have not been
  sent; when they have been sent the error listener does nothing: the response and
  the stream stay exactly as they are, so the handler sends no further structured
  error, and it neither ends the response nor destroys the stream.
\<close>

theorem no_json_after_headers_sent:
  "(serve e req events = pre @ Json p # post \<longrightarrow> \<not> headersSent pre)
   \<and> (serve_part000 e req events = pre @ Json p # post \<longrightarrow> \<not> headersSent pre)
   \<and> (headersSent (res s) \<longrightarrow>
        on_event s (StreamError message) = s \<and> on_event_part000 s (StreamError message) = s)
   \<and> (\<not> headersSent (res s) \<and> \<not> destroyed s \<longrightarrow>
        res (on_event s (StreamError message))
          = res s @ [Status 500,
                     Json [(lit ''error'', lit ''Stream failed''), (lit ''details'', message)]]
        \<and> res (on_event_part000 s (StreamError message))
          = res s @ [Status 500, Json [(lit ''error'', lit ''Stream failed'')]])
   \<and> (headersSent (serve e req events) \<longrightarrow>
        serve e req (events @ [StreamError message]) = serve e req events)
   \<and> (headersSent (serve_part000 e req events) \<longrightarrow>
        serve_part000 e req (events @ [StreamError message]) = serve_part000 e req events)
   \<and> (snd (handler e req) \<noteq> None \<and> \<not> headersSent (serve e req events) \<longrightarrow>
        serve e req (events @ [StreamError message])
          = serve e req events
            @ [Status 500,
               Json [(lit ''error'', lit ''Stream failed''), (lit ''details'', message)]])
   \<and> (snd (handler_part000 e req) \<noteq> None \<and> \<not> headersSent (serve_part000 e req events)
        \<and> ClientClose \<notin> set events \<longrightarrow>
        serve_part000 e req (events @ [StreamError message])
          = serve_part000 e req events
            @ [Status 500, Json [(lit ''error'', lit ''Stream failed'')]])"
proof (intro conjI impI)
  assume "serve e req events = pre @ Json p # post"
  with serve_json_before_commit [of e req events] show "\<not> headersSent pre"
    by (simp add: json_before_commit_split)
next
  assume "serve_part000 e req events = pre @ Json p # post"
  with serve_part000_json_before_commit [of e req events] show "\<not> headersSent pre"
    by (simp add: json_before_commit_split)
next
  assume "headersSent (res s)"
  then show "on_event s (StreamError message) = s" by simp
next
  assume "headersSent (res s)"
  then show "on_event_part000 s (StreamError message) = s" by simp
next
  assume "\<not> headersSent (res s) \<and> \<not> destroyed s"
  then show "res (on_event s (StreamError message))
      = res s @ [Status 500,
                 Json [(lit ''error'', lit ''Stream failed''), (lit ''details'', message)]]"
    by simp
next
  assume "\<not> headersSent (res s) \<and> \<not> destroyed s"
  then show "res (on_event_part000 s (StreamError message))
      = res s @ [Status 500, Json [(lit ''error'', lit ''Stream failed'')]]"
    by simp
next
  assume h: "headersSent (serve e req events)"
  show "serve e req (events @ [StreamError message]) = serve e req events"
  proof (cases "snd (handler e req) = None")
    case True
    then show ?thesis by (simp add: serve_not_streaming)
  next
    case False
    have 1: "serve e req events = res (stream_events (fst (handler e req)) events)"
      using False by (rule serve_streaming)
    have 2: "serve e req (events @ [StreamError message])
               = res (on_event (stream_events (fst (handler e req)) events)
                        (StreamError message))"
      using serve_streaming [OF False, of "events @ [StreamError message]"]
      by (simp add: stream_events_snoc)
    from h show ?thesis by (simp add: 1 2)
  qed
next
  assume h: "headersSent (serve_part000 e req events)"
  show "serve_part000 e req (events @ [StreamError message]) = serve_part000 e req events"
  proof (cases "snd (handler_part000 e req) = None")
    case True
    then show ?thesis by (simp add: serve_part000_not_streaming)
  next
    case False
    have 1: "serve_part000 e req events
               = res (stream_events_part000 (fst (handler_part000 e req)) events)"
      using False by (rule serve_part000_streaming)
    have 2: "serve_part000 e req (events @ [StreamError message])
               = res (on_event_part000
                        (stream_events_part000 (fst (handler_part000 e req)) events)
                        (StreamError message))"
      using serve_part000_streaming [OF False, of "events @ [StreamError message]"]
      by (simp add: stream_events_part000_snoc)
    from h show ?thesis by (simp add: 1 2)
  qed
next
  assume a: "snd (handler e req) \<noteq> None \<and> \<not> headersSent (serve e req events)"
  let ?s = "stream_events (fst (handler e req)) events"
  from a have st: "snd (handler e req) \<noteq> None" by simp
  have 1: "serve e req events = res ?s"
    using st by (rule serve_streaming)
  have 2: "serve e req (events @ [StreamError message]) = res (on_event ?s (StreamError message))"
    using serve_streaming [OF st, of "events @ [StreamError message]"]
    by (simp add: stream_events_snoc)
  have "\<not> destroyed ?s"
    by (simp add: stream_events_def foldl_on_event_destroyed)
  moreover from a have "\<not> headersSent (res ?s)" by (simp add: 1)
  ultimately show "serve e req (events @ [StreamError message])
      = serve e req events
        @ [Status 500, Json [(lit ''error'', lit ''Stream failed''), (lit ''details'', message)]]"
    by (simp add: 1 2)
next
  assume a: "snd (handler_part000 e req) \<noteq> None \<and> \<not> headersSent (serve_part000 e req events)
             \<and> ClientClose \<notin> set events"
  let ?s = "stream_events_part000 (fst (handler_part000 e req)) events"
  from a have st: "snd (handler_part000 e req) \<noteq> None" by simp
  have 1: "serve_part000 e req events = res ?s"
    using st by (rule serve_part000_streaming)
  have 2: "serve_part000 e req (events @ [StreamError message])
             = res (on_event_part000 ?s (StreamError message))"
    using serve_part000_streaming [OF st, of "events @ [StreamError message]"]
    by (simp add: stream_events_part000_snoc)
  from a have "\<not> destroyed ?s"
    by (simp add: stream_events_part000_def foldl_on_event_part000_destroyed)
  moreover from a have "\<not> headersSent (res ?s)" by (simp add: 1)
  ultimately show "serve_part000 e req (events @ [StreamError message])
      = serve_part000 e req events @ [Status 500, Json [(lit ''error'', lit ''Stream failed'')]]"
    by (simp add: 1 2)
qed

theorem no_json_after_headers_sent_witness:
  "serve (example_env (Inr (example_info [example_format 18 ''mp4'' True True 360])))
       example_request [StreamError (lit ''aborted''), Data [1, 2]]
     = [SetHeader (lit ''Content-Type'') (lit ''video/mp4''),
        SetHeader (lit ''Content-Disposition'')
          (lit ''attachment; filename='' @ [0x22] @ lit ''clip.mp4'' @ [0x22]),
        Status 500]
       @ Json [(lit ''error'', lit ''Stream failed''), (lit ''details'', lit ''aborted'')]
       # []
   \<and> \<not> headersSent
         [SetHeader (lit ''Content-Type'') (lit ''video/mp4''),
          SetHeader (lit ''Content-Disposition'')
            (lit ''attachment; filename='' @ [0x22] @ lit ''clip.mp4'' @ [0x22]),
          Status 500]
   \<and> headersSent (res \<lparr>res = [Write [1, 2]], destroyed = False\<rparr>)
   \<and> on_event \<lparr>res = [Write [1, 2]], destroyed = False\<rparr> (StreamError (lit ''aborted''))
       = \<lparr>res = [Write [1, 2]], destroyed = False\<rparr>
   \<and> on_event_part000 \<lparr>res = [Write [1, 2]], destroyed = False\<rparr> (StreamError (lit ''aborted''))
       = \<lparr>res = [Write [1, 2]], destroyed = False\<rparr>
   \<and> headersSent
         (serve (example_env (Inr (example_info [example_format 18 ''mp4'' True True 360])))
            example_request [Data [1, 2]])
   \<and> serve (example_env (Inr (example_info [example_format 18 ''mp4'' True True 360])))
         example_request ([Data [1, 2]] @ [StreamError (lit ''aborted'')])
       = serve (example_env (Inr (example_info [example_format 18 ''mp4'' True True 360])))
           example_request [Data [1, 2]]"
proof -
  let ?e = "example_env (Inr (example_info [example_format 18 ''mp4'' True True 360]))"
  let ?pre = "[SetHeader (lit ''Content-Type'') (lit ''video/mp4''),
               SetHeader (lit ''Content-Disposition'')
                 (lit ''attachment; filename='' @ [0x22] @ lit ''clip.mp4'' @ [0x22]),
               Status 500]"
  let ?s = "\<lparr>res = [Write [1, 2]], destroyed = False\<rparr>"
  have 1: "serve ?e example_request [StreamError (lit ''aborted''), Data [1, 2]]
             = ?pre @ Json [(lit ''error'', lit ''Stream failed''),
                            (lit ''details'', lit ''aborted'')] # []"
    by code_simp
  have 2: "headersSent (res ?s)"
    by (simp add: headersSent_def)
  have 3: "headersSent (serve ?e example_request [Data [1, 2]])"
    by code_simp
  from no_json_after_headers_sent
         [of ?e example_request "[StreamError (lit ''aborted''), Data [1, 2]]" ?pre
             "[(lit ''error'', lit ''Stream failed''), (lit ''details'', lit ''aborted'')]"
             "[]" ?s "lit ''aborted''"]
       no_json_after_headers_sent
         [of ?e example_request "[Data [1, 2]]" "[]" "[]" "[]" ?s "lit ''aborted''"]
  show ?thesis
    using 1 2 3 by blast
qed

text \<open>
  Claim C8 as it is stated fails in its last clause, that an error of the byte stream
  after the headers have been sent results in the termination of the connection. In
  both handlers the response after a chunk, a stream error and another chunk holds
  both chunks and no end, and the stream is not destroyed.
\<close>

theorem stream_error_leaves_connection_open:
  "handler (example_env (Inr (example_info [example_format 18 ''mp4'' True True 360])))
       example_request
     = ([SetHeader (lit ''Content-Type'') (lit ''video/mp4''),
         SetHeader (lit ''Content-Disposition'')
           (lit ''attachment; filename='' @ [0x22] @ lit ''clip.mp4'' @ [0x22])],
        Some (example_format 18 ''mp4'' True True 360))
   \<and> stream_events
         [SetHeader (lit ''Content-Type'') (lit ''video/mp4''),
          SetHeader (lit ''Content-Disposition'')
            (lit ''attachment; filename='' @ [0x22] @ lit ''clip.mp4'' @ [0x22])]
         [Data [1, 2], StreamError (lit ''aborted''), Data [3]]
     = \<lparr>res = [SetHeader (lit ''Content-Type'') (lit ''video/mp4''),
               SetHeader (lit ''Content-Disposition'')
                 (lit ''attachment; filename='' @ [0x22] @ lit ''clip.mp4'' @ [0x22]),
               Write [1, 2], Write [3]],
        destroyed = False\<rparr>
   \<and> handler_part000 (example_env (Inr (example_info [example_format 18 ''mp4'' True True 360])))
       example_request
     = ([SetHeader (lit ''Content-Type'') (lit ''video/mp4''),
         SetHeader (lit ''Content-Disposition'')
           (lit ''attachment; filename='' @ [0x22] @ lit ''clip.mp4'' @ [0x22]),
         SetHeader (lit ''Content-Length'') (lit ''unknown'')],
        Some (example_format 18 ''mp4'' True True 360))
   \<and> stream_events_part000
         [SetHeader (lit ''Content-Type'') (lit ''video/mp4''),
          SetHeader (lit ''Content-Disposition'')
            (lit ''attachment; filename='' @ [0x22] @ lit ''clip.mp4'' @ [0x22]),
          SetHeader (lit ''Content-Length'') (lit ''unknown'')]
         [Data [1, 2], StreamError (lit ''aborted''), Data [3]]
     = \<lparr>res = [SetHeader (lit ''Content-Type'') (lit ''video/mp4''),
               SetHeader (lit ''Content-Disposition'')
                 (lit ''attachment; filename='' @ [0x22] @ lit ''clip.mp4'' @ [0x22]),
               SetHeader (lit ''Content-Length'') (lit ''unknown''),
               Write [1, 2], Write [3]],
        destroyed = False\<rparr>"
  by code_simp

subsection \<open>Claim C9\<close>


end
